theory Spec2Isabelle
  imports Main "HOL-Library.Char_ord" "HOL-Library.List_Lexorder" "HOL-Library.Multiset"
begin

section \<open>Data model\<close>

text \<open>
  JavaScript values as far as the audit pipeline handles them: the \<open>unknown\<close> slots of an
  audit entry (\<open>from\<close>, \<open>to\<close>, metadata values) and the fields of a request body.
  Numbers are the integral ones the routes store; strings are lists of code units below 256.
  \<open>JSON.parse\<close> can deliver any of them but \<open>undefined\<close>.
\<close>

datatype jsval =
    JUndefined
  | JNull
  | JBool bool
  | JNum int
  | JStr string
  | JObj "(string \<times> jsval) list"
  | JArr "jsval list"

text \<open>Truthiness as used by \<open>!x\<close>, \<open>x || y\<close> and \<open>x ? a : b\<close>.\<close>

fun truthy :: "jsval \<Rightarrow> bool" where
  "truthy JUndefined = False"
| "truthy JNull = False"
| "truthy (JBool b) = b"
| "truthy (JNum n) = (n \<noteq> 0)"
| "truthy (JStr s) = (s \<noteq> [])"
| "truthy (JObj kvs) = True"
| "truthy (JArr vs) = True"

text \<open>An optional string: \<open>None\<close> is \<open>undefined\<close>; the empty string is falsy as well.\<close>

definition given :: "string option \<Rightarrow> bool" where
  "given x = (case x of None \<Rightarrow> False | Some s \<Rightarrow> s \<noteq> [])"

text \<open>\<open>x || d\<close> on an optional string.\<close>

definition or_else :: "string option \<Rightarrow> string \<Rightarrow> string" where
  "or_else x d = (case x of None \<Rightarrow> d | Some s \<Rightarrow> if s = [] then d else s)"

text \<open>Property access on an object, and the string inside a string value.\<close>

definition get_prop :: "(string \<times> jsval) list \<Rightarrow> string \<Rightarrow> jsval" where
  "get_prop obj k = (case map_of obj k of None \<Rightarrow> JUndefined | Some v \<Rightarrow> v)"

fun str_of :: "jsval \<Rightarrow> string" where
  "str_of (JStr s) = s"
| "str_of v = []"

text \<open>
  Thrown values: a file-system error with its code, an \<open>Error\<close> with its message, a
  \<open>TypeError\<close>.
\<close>

datatype exn = FsError string | JsError string | TypeError

text \<open>
  \<open>v.key\<close> on any value: \<open>null\<close> and \<open>undefined\<close> have no properties and the access
  throws; a string, a number, a boolean and an array have none under the keys used here.
\<close>

fun member :: "jsval \<Rightarrow> string \<Rightarrow> exn + jsval" where
  "member JUndefined k = Inl TypeError"
| "member JNull k = Inl TypeError"
| "member (JObj kvs) k = Inr (get_prop kvs k)"
| "member v k = Inr JUndefined"

text \<open>\<open>String(v)\<close>, the conversion that a built-in applies to a string argument.\<close>

fun show_nat :: "nat \<Rightarrow> string" where
  "show_nat n =
     (if n < 10 then [char_of (48 + n)] else show_nat (n div 10) @ [char_of (48 + n mod 10)])"

fun comma_join :: "string list \<Rightarrow> string" where
  "comma_join [] = []"
| "comma_join [s] = s"
| "comma_join (s # t # ss) = s @ CHR '','' # comma_join (t # ss)"

fun js_ToString :: "jsval \<Rightarrow> string" where
  "js_ToString JUndefined = ''undefined''"
| "js_ToString JNull = ''null''"
| "js_ToString (JBool b) = (if b then ''true'' else ''false'')"
| "js_ToString (JNum n) = (if n < 0 then CHR ''-'' # show_nat (nat (- n)) else show_nat (nat n))"
| "js_ToString (JStr s) = s"
| "js_ToString (JObj kvs) = ''[object Object]''"
| "js_ToString (JArr vs) =
     comma_join (map (\<lambda>v. if v = JNull \<or> v = JUndefined then [] else js_ToString v) vs)"

text \<open>\<open>AuditLogEntry\<close> of \<open>middleware/audit.ts\<close>.\<close>

record audit_target =
  t_type :: string
  t_id :: string
  t_name :: "string option"

record change =
  from_val :: jsval
  to_val :: jsval

record AuditLogEntry =
  timestamp :: string
  action :: string
  admin :: string
  target :: "audit_target option"
  changes :: "(string \<times> change) list option"
  metadata :: "(string \<times> jsval) list option"
  ip :: string
  userAgent :: "string option"

text \<open>The \<open>options\<close> argument of \<open>logAuditAction\<close>.\<close>

record audit_options =
  opt_target :: "audit_target option"
  opt_changes :: "(string \<times> change) list option"
  opt_metadata :: "(string \<times> jsval) list option"
  opt_ip :: "string option"
  opt_userAgent :: "string option"

datatype console_arg = S string | E exn

datatype console_line =
    ConsoleLog "console_arg list"
  | ConsoleWarn "console_arg list"
  | ConsoleError "console_arg list"

text \<open>
  The part of the process and of the machine that the audit code reads and writes:
  \<^item> \<open>env\<close>: \<open>process.env\<close>;
  \<^item> \<open>clock\<close> and \<open>tick\<close>: the \<open>tick\<close>-th \<open>new Date().toISOString()\<close> returns \<open>clock tick\<close>;
  \<^item> \<open>log_dir\<close>: the directory \<open>LOG_DIR\<close>, \<open>None\<close> while it does not exist, otherwise its
    files (name and content) in the order \<open>readdirSync\<close> lists them;
  \<^item> \<open>console\<close>: the lines written to the console so far;
  \<^item> the faults: the error, if any, that the file-system call raises in this world.
\<close>

record world =
  env :: "string \<Rightarrow> string option"
  clock :: "nat \<Rightarrow> string"
  tick :: nat
  log_dir :: "(string \<times> string) list option"
  console :: "console_line list"
  mkdir_fault :: "exn option"
  append_fault :: "exn option"
  readdir_fault :: "exn option"
  read_fault :: "string \<Rightarrow> exn option"

text \<open>A call either throws, or returns a value; both leave a world behind.\<close>

datatype 'a outcome = Throw exn world | Return 'a world

text \<open>What a call threw, if it threw, and what it returned, if it returned.\<close>

fun thrown :: "'a outcome \<Rightarrow> exn option" where
  "thrown (Throw e w) = Some e"
| "thrown (Return x w) = None"

fun returned :: "'a outcome \<Rightarrow> 'a option" where
  "returned (Throw e w) = None"
| "returned (Return x w) = Some x"

text \<open>The world a call leaves behind.\<close>

fun world_after :: "'a outcome \<Rightarrow> world" where
  "world_after (Throw e w) = w"
| "world_after (Return x w) = w"

text \<open>\<open>AdminPayload\<close> of \<open>middleware/auth.ts\<close>: the claims of a verified token.\<close>

record AdminPayload =
  username :: string
  iat :: int
  exp :: int

text \<open>
  Functions of the JavaScript library and of the packages that the code calls and whose
  bodies are not part of the repository. \<open>JSON_parse\<close> returns \<open>None\<close> where
  \<open>JSON.parse\<close> throws and otherwise the value, whatever its shape;
  \<open>JSON_stringify\<close> and \<open>jwt_sign\<close> may throw,
  \<open>jwt_verify token secret\<close> is \<open>None\<close> where \<open>jwt.verify\<close> throws, and
  \<open>localeCompare s t\<close> is \<open>s.localeCompare(t)\<close>.
\<close>

record runtime =
  JSON_parse :: "string \<Rightarrow> jsval option"
  JSON_stringify :: "AuditLogEntry \<Rightarrow> exn + string"
  localeCompare :: "string \<Rightarrow> string \<Rightarrow> int"
  jwt_sign :: "string \<Rightarrow> string \<Rightarrow> string \<Rightarrow> exn + string"
  jwt_verify :: "string \<Rightarrow> string \<Rightarrow> AdminPayload option"

section \<open>The Audit Recorder (\<open>middleware/audit.ts\<close>)\<close>

definition console_log :: "console_arg list \<Rightarrow> world \<Rightarrow> world" where
  "console_log args w = w\<lparr>console := console w @ [ConsoleLog args]\<rparr>"

definition console_warn :: "console_arg list \<Rightarrow> world \<Rightarrow> world" where
  "console_warn args w = w\<lparr>console := console w @ [ConsoleWarn args]\<rparr>"

definition console_error :: "console_arg list \<Rightarrow> world \<Rightarrow> world" where
  "console_error args w = w\<lparr>console := console w @ [ConsoleError args]\<rparr>"

text \<open>\<open>new Date().toISOString()\<close>: reads the clock, which moves on.\<close>

definition Date_toISOString :: "world \<Rightarrow> string \<times> world" where
  "Date_toISOString w = (clock w (tick w), w\<lparr>tick := Suc (tick w)\<rparr>)"

text \<open>\<open>fs.mkdirSync(resolvedPath, { recursive: true })\<close>.\<close>

definition fs_mkdirSync :: "world \<Rightarrow> unit outcome" where
  "fs_mkdirSync w =
     (case mkdir_fault w of
        Some e \<Rightarrow> Throw e w
      | None \<Rightarrow> Return () (w\<lparr>log_dir := Some []\<rparr>))"

definition ensureLogDir :: "world \<Rightarrow> unit outcome" where
  "ensureLogDir w =
     (case log_dir w of
        Some fs \<Rightarrow> Return () w
      | None \<Rightarrow> fs_mkdirSync w)"

text \<open>\<open>getLogFilePath\<close>: \<open>split('T')[0]\<close> is the part before the first \<open>T\<close>.\<close>

definition getLogFilePath :: "world \<Rightarrow> string \<times> world" where
  "getLogFilePath w =
     (let (iso, w1) = Date_toISOString w
      in (''audit-'' @ takeWhile (\<lambda>c. c \<noteq> CHR ''T'') iso @ ''.json'', w1))"

definition append_file :: "(string \<times> string) list \<Rightarrow> string \<Rightarrow> string \<Rightarrow> (string \<times> string) list" where
  "append_file fs p line =
     (if p \<in> set (map fst fs)
      then map (\<lambda>(n, c). if n = p then (n, c @ line) else (n, c)) fs
      else fs @ [(p, line)])"

text \<open>\<open>fs.appendFileSync(logPath, line)\<close>: creates the file when it is not there.\<close>

definition fs_appendFileSync :: "string \<Rightarrow> string \<Rightarrow> world \<Rightarrow> unit outcome" where
  "fs_appendFileSync p line w =
     (case append_fault w of
        Some e \<Rightarrow> Throw e w
      | None \<Rightarrow>
         (case log_dir w of
            None \<Rightarrow> Throw (FsError ''ENOENT'') w
          | Some fs \<Rightarrow> Return () (w\<lparr>log_dir := Some (append_file fs p line)\<rparr>)))"

text \<open>The body of the \<open>try\<close> block of \<open>appendToLog\<close>.\<close>

definition write_entry :: "runtime \<Rightarrow> AuditLogEntry \<Rightarrow> world \<Rightarrow> unit outcome" where
  "write_entry rt entry w =
     (case ensureLogDir w of
        Throw e w1 \<Rightarrow> Throw e w1
      | Return u w1 \<Rightarrow>
         (let (logPath, w2) = getLogFilePath w1
          in case JSON_stringify rt entry of
               Inl e \<Rightarrow> Throw e w2
             | Inr js \<Rightarrow> fs_appendFileSync logPath (js @ [CHR 0x0A]) w2))"

definition appendToLog :: "runtime \<Rightarrow> AuditLogEntry \<Rightarrow> world \<Rightarrow> unit outcome" where
  "appendToLog rt entry w =
     (if env w ''AUDIT_LOG_ENABLED'' \<noteq> Some ''true'' then Return () w
      else
        (case write_entry rt entry w of
           Return u w1 \<Rightarrow> Return () w1
         | Throw e w1 \<Rightarrow> Return () (console_error [S ''[Audit] Failed to write log:'', E e] w1)))"

text \<open>The entry that \<open>logAuditAction\<close> builds, and the line it prints.\<close>

definition make_entry :: "string \<Rightarrow> string \<Rightarrow> string \<Rightarrow> audit_options option \<Rightarrow> AuditLogEntry" where
  "make_entry ts adm act options =
     \<lparr> timestamp = ts,
       action = act,
       admin = adm,
       target = Option.bind options opt_target,
       changes = Option.bind options opt_changes,
       metadata = Option.bind options opt_metadata,
       ip = or_else (Option.bind options opt_ip) ''unknown'',
       userAgent = Option.bind options opt_userAgent \<rparr>"

definition audit_console_line :: "string \<Rightarrow> string \<Rightarrow> audit_options option \<Rightarrow> console_arg list" where
  "audit_console_line adm act options =
     [S (''[Audit] '' @ adm @ '' performed '' @ act),
      S (case Option.bind options opt_target of
           Some t \<Rightarrow> ''on '' @ t_type t @ '':'' @ t_id t
         | None \<Rightarrow> '''')]"

definition logAuditAction ::
  "runtime \<Rightarrow> string \<Rightarrow> string \<Rightarrow> audit_options option \<Rightarrow> world \<Rightarrow> unit outcome" where
  "logAuditAction rt adm act options w =
     (let (ts, w1) = Date_toISOString w
      in case appendToLog rt (make_entry ts adm act options) w1 of
           Throw e w2 \<Rightarrow> Throw e w2
         | Return u w2 \<Rightarrow> Return () (console_log (audit_console_line adm act options) w2))"

section \<open>The Audit Reader (\<open>readAuditLogs\<close>)\<close>

definition startsWith :: "string \<Rightarrow> string \<Rightarrow> bool" where
  "startsWith p s = (take (length p) s = p)"

definition endsWith :: "string \<Rightarrow> string \<Rightarrow> bool" where
  "endsWith p s = (length p \<le> length s \<and> drop (length s - length p) s = p)"

text \<open>
  \<open>file.match(/audit-(\d{4}-\d{2}-\d{2})\.json/)\<close>: the pattern is not anchored, so the
  leftmost place of the name where it fits decides; the result is the captured date.
\<close>

definition is_digit :: "char \<Rightarrow> bool" where
  "is_digit c = (c \<in> set ''0123456789'')"

definition date_shape :: "string \<Rightarrow> bool" where
  "date_shape d =
     (length d = 10 \<and> list_all is_digit (take 4 d) \<and> d ! 4 = CHR ''-'' \<and>
      list_all is_digit (take 2 (drop 5 d)) \<and> d ! 7 = CHR ''-'' \<and>
      list_all is_digit (drop 8 d))"

definition match_here :: "string \<Rightarrow> string option" where
  "match_here s =
     (let d = take 10 (drop 6 s)
      in if take 6 s = ''audit-'' \<and> date_shape d \<and> take 5 (drop 16 s) = ''.json''
         then Some d else None)"

fun file_match :: "string \<Rightarrow> string option" where
  "file_match [] = None"
| "file_match (c # cs) =
     (case match_here (c # cs) of
        Some d \<Rightarrow> Some d
      | None \<Rightarrow> file_match cs)"

text \<open>\<open>startDate && fileDate < startDate\<close> and \<open>endDate && fileDate > endDate\<close>.\<close>

definition before_start :: "string option \<Rightarrow> string \<Rightarrow> bool" where
  "before_start startDate fileDate =
     (case startDate of None \<Rightarrow> False | Some s \<Rightarrow> s \<noteq> [] \<and> fileDate < s)"

definition after_end :: "string option \<Rightarrow> string \<Rightarrow> bool" where
  "after_end endDate fileDate =
     (case endDate of None \<Rightarrow> False | Some s \<Rightarrow> s \<noteq> [] \<and> s < fileDate)"

text \<open>
  \<open>content.trim().split('\n').filter(Boolean)\<close>. The white space of \<open>trim\<close> among the
  code units below 256: tab, line feed, vertical tab, form feed, carriage return, space and
  the no-break space.
\<close>

definition is_space :: "char \<Rightarrow> bool" where
  "is_space c = (c \<in> set [CHR 0x09, CHR 0x0A, CHR 0x0B, CHR 0x0C, CHR 0x0D, CHR 0x20, CHR 0xA0])"

definition trim :: "string \<Rightarrow> string" where
  "trim s = rev (dropWhile is_space (rev (dropWhile is_space s)))"

fun split_nl :: "string \<Rightarrow> string list" where
  "split_nl [] = [[]]"
| "split_nl (c # cs) =
     (if c = CHR 0x0A then [] # split_nl cs
      else (case split_nl cs of
              [] \<Rightarrow> [[c]]
            | l # ls \<Rightarrow> (c # l) # ls))"

definition js_lines :: "string \<Rightarrow> string list" where
  "js_lines content = filter (\<lambda>l. l \<noteq> []) (split_nl (trim content))"

text \<open>
  The inner loop: one \<open>try\<close> per line. Whatever \<open>JSON.parse\<close> returns is pushed, an
  entry or not.
\<close>

fun parse_lines ::
  "runtime \<Rightarrow> string list \<Rightarrow> jsval list \<times> world \<Rightarrow> jsval list \<times> world" where
  "parse_lines rt [] acc = acc"
| "parse_lines rt (line # ls) (entries, w) =
     (case JSON_parse rt line of
        Some e \<Rightarrow> parse_lines rt ls (entries @ [e], w)
      | None \<Rightarrow>
          parse_lines rt ls
            (entries, console_warn [S ''[Audit] Failed to parse log line:'', S line] w))"

definition fs_readdirSync :: "world \<Rightarrow> string list outcome" where
  "fs_readdirSync w =
     (case readdir_fault w of
        Some e \<Rightarrow> Throw e w
      | None \<Rightarrow>
         (case log_dir w of
            None \<Rightarrow> Throw (FsError ''ENOENT'') w
          | Some fs \<Rightarrow> Return (map fst fs) w))"

definition fs_readFileSync :: "string \<Rightarrow> world \<Rightarrow> string outcome" where
  "fs_readFileSync f w =
     (case read_fault w f of
        Some e \<Rightarrow> Throw e w
      | None \<Rightarrow>
         (case Option.bind (log_dir w) (\<lambda>fs. map_of fs f) of
            None \<Rightarrow> Throw (FsError ''ENOENT'') w
          | Some content \<Rightarrow> Return content w))"

text \<open>The outer loop over the files; \<open>readFileSync\<close> stands outside every \<open>try\<close>.\<close>

fun read_files ::
  "runtime \<Rightarrow> string option \<Rightarrow> string option \<Rightarrow> string list \<Rightarrow>
   jsval list \<times> world \<Rightarrow> jsval list outcome" where
  "read_files rt startDate endDate [] (entries, w) = Return entries w"
| "read_files rt startDate endDate (file # rest) (entries, w) =
     (case file_match file of
        None \<Rightarrow> read_files rt startDate endDate rest (entries, w)
      | Some fileDate \<Rightarrow>
          if before_start startDate fileDate then read_files rt startDate endDate rest (entries, w)
          else if after_end endDate fileDate then read_files rt startDate endDate rest (entries, w)
          else
            (case fs_readFileSync file w of
               Throw e w1 \<Rightarrow> Throw e w1
             | Return content w1 \<Rightarrow>
                 read_files rt startDate endDate rest
                   (parse_lines rt (js_lines content) (entries, w1))))"

text \<open>
  The comparator \<open>(a, b) => b.timestamp.localeCompare(a.timestamp)\<close>. It throws a
  \<open>TypeError\<close> when \<open>b\<close> is \<open>null\<close>, when \<open>b.timestamp\<close> is not a string (no such
  method), and when \<open>a\<close> is \<open>null\<close>; the argument \<open>a.timestamp\<close> is converted to a string.
\<close>

definition compare_newest_first :: "runtime \<Rightarrow> jsval \<Rightarrow> jsval \<Rightarrow> exn + int" where
  "compare_newest_first rt a b =
     (case member b ''timestamp'' of
        Inl e \<Rightarrow> Inl e
      | Inr tb \<Rightarrow>
          if tb = JUndefined \<or> tb = JNull then Inl TypeError
          else
            (case member a ''timestamp'' of
               Inl e \<Rightarrow> Inl e
             | Inr ta \<Rightarrow>
                 (case tb of
                    JStr s \<Rightarrow> Inr (localeCompare rt s (js_ToString ta))
                  | _ \<Rightarrow> Inl TypeError)))"

text \<open>
  \<open>Array.prototype.sort(compareFn)\<close>: a stable sort; an element goes before the first one
  that \<open>compareFn\<close> puts it strictly before, and what \<open>compareFn\<close> throws leaves the sort.
  The language leaves the sequence of the calls of \<open>compareFn\<close> to the implementation; this
  is one such sequence. With fewer than two elements there is no call at all, and with two
  or more every element takes part in a call.
\<close>

fun insert_by :: "('a \<Rightarrow> 'a \<Rightarrow> exn + int) \<Rightarrow> 'a \<Rightarrow> 'a list \<Rightarrow> exn + 'a list" where
  "insert_by cmp x [] = Inr [x]"
| "insert_by cmp x (y # ys) =
     (case cmp x y of
        Inl e \<Rightarrow> Inl e
      | Inr c \<Rightarrow>
          if c < 0 then Inr (x # y # ys)
          else (case insert_by cmp x ys of
                  Inl e \<Rightarrow> Inl e
                | Inr zs \<Rightarrow> Inr (y # zs)))"

fun sort_loop :: "('a \<Rightarrow> 'a \<Rightarrow> exn + int) \<Rightarrow> 'a list \<Rightarrow> 'a list \<Rightarrow> exn + 'a list" where
  "sort_loop cmp [] acc = Inr acc"
| "sort_loop cmp (x # xs) acc =
     (case insert_by cmp x acc of
        Inl e \<Rightarrow> Inl e
      | Inr acc1 \<Rightarrow> sort_loop cmp xs acc1)"

definition js_sort :: "('a \<Rightarrow> 'a \<Rightarrow> exn + int) \<Rightarrow> 'a list \<Rightarrow> exn + 'a list" where
  "js_sort cmp xs = sort_loop cmp xs []"

definition audit_file_names :: "string list \<Rightarrow> string list" where
  "audit_file_names names = filter (\<lambda>f. startsWith ''audit-'' f \<and> endsWith ''.json'' f) names"

definition readAuditLogs ::
  "runtime \<Rightarrow> string option \<Rightarrow> string option \<Rightarrow> world \<Rightarrow> jsval list outcome" where
  "readAuditLogs rt startDate endDate w =
     (case ensureLogDir w of
        Throw e w1 \<Rightarrow> Throw e w1
      | Return u w1 \<Rightarrow>
         (case fs_readdirSync w1 of
            Throw e w2 \<Rightarrow> Throw e w2
          | Return names w2 \<Rightarrow>
             (case read_files rt startDate endDate (audit_file_names names) ([], w2) of
                Throw e w3 \<Rightarrow> Throw e w3
              | Return entries w3 \<Rightarrow>
                  (case js_sort (compare_newest_first rt) entries of
                     Inl e \<Rightarrow> Throw e w3
                   | Inr sorted_entries \<Rightarrow> Return sorted_entries w3))))"

text \<open>
  What a read is expected to deliver, stated without the loops: the files of the directory
  that carry the name of a daily log and a date inside the bounds, and the entries that
  their lines parse to.
\<close>

definition dir_files :: "world \<Rightarrow> (string \<times> string) list" where
  "dir_files w = (case log_dir w of None \<Rightarrow> [] | Some fs \<Rightarrow> fs)"

definition in_range :: "string option \<Rightarrow> string option \<Rightarrow> string \<Rightarrow> bool" where
  "in_range startDate endDate f =
     (case file_match f of
        None \<Rightarrow> False
      | Some d \<Rightarrow>
          (case startDate of None \<Rightarrow> True | Some s \<Rightarrow> s = [] \<or> s \<le> d) \<and>
          (case endDate of None \<Rightarrow> True | Some e \<Rightarrow> e = [] \<or> d \<le> e))"

definition selected_files :: "string option \<Rightarrow> string option \<Rightarrow> world \<Rightarrow> string list" where
  "selected_files startDate endDate w =
     filter (in_range startDate endDate) (audit_file_names (map fst (dir_files w)))"

definition parsed_entries :: "runtime \<Rightarrow> string \<Rightarrow> jsval list" where
  "parsed_entries rt content = List.map_filter (JSON_parse rt) (js_lines content)"

definition file_content :: "world \<Rightarrow> string \<Rightarrow> string" where
  "file_content w f = (case map_of (dir_files w) f of None \<Rightarrow> [] | Some c \<Rightarrow> c)"

definition expected_entries ::
  "runtime \<Rightarrow> string option \<Rightarrow> string option \<Rightarrow> world \<Rightarrow> jsval list" where
  "expected_entries rt startDate endDate w =
     concat (map (\<lambda>f. parsed_entries rt (file_content w f)) (selected_files startDate endDate w))"

text \<open>A parsed line that is an entry as far as the sort looks: an object with a string \<open>timestamp\<close>.\<close>

fun is_entry :: "jsval \<Rightarrow> bool" where
  "is_entry (JObj kvs) = (case get_prop kvs ''timestamp'' of JStr s \<Rightarrow> True | _ \<Rightarrow> False)"
| "is_entry v = False"

fun timestamp_of :: "jsval \<Rightarrow> string" where
  "timestamp_of (JObj kvs) = str_of (get_prop kvs ''timestamp'')"
| "timestamp_of v = []"

text \<open>A file as the recorder writes it: every line closed by a line feed.\<close>

definition file_of_lines :: "string list \<Rightarrow> string" where
  "file_of_lines ls = concat (map (\<lambda>l. l @ [CHR 0x0A]) ls)"

definition clean_line :: "string \<Rightarrow> bool" where
  "clean_line l = (l \<noteq> [] \<and> CHR 0x0A \<notin> set l \<and> \<not> is_space (hd l) \<and> \<not> is_space (last l))"

section \<open>Requests, responses and the Audit Interceptor\<close>

record request =
  req_method :: string
  req_path :: string
  req_params :: "(string \<times> string) list"
  req_body :: "(string \<times> jsval) list"
  req_headers :: "(string \<times> string) list"
  req_cookies :: "(string \<times> string) list"
  req_admin :: "AdminPayload option"
  req_ip :: "string option"
  req_remoteAddress :: "string option"

text \<open>
  What a handler hands to \<open>res.send\<close>: a string, the string that \<open>res.json\<close> made of a
  value, or an object. (No handler of the repository hands over anything else.)
\<close>

datatype body = Text string | Json jsval | Object "(string \<times> jsval) list"

text \<open>
  \<open>auditMiddleware\<close> replaces \<open>res.send\<close> by a function that closes over its
  \<open>actionPrefix\<close> and the function it found there. The response keeps these wrappers as a
  list, outermost first; with none of them \<open>res.send\<close> is the one of the framework.
\<close>

datatype send_hook = AuditHook string

record response =
  statusCode :: int
  sent :: "body option"
  res_cookies :: "(string \<times> string) list"
  send_hooks :: "send_hook list"

definition new_response :: response where
  "new_response = \<lparr> statusCode = 200, sent = None, res_cookies = [], send_hooks = [] \<rparr>"

text \<open>\<open>req.admin?.username || 'unknown'\<close>.\<close>

definition admin_or_unknown :: "request \<Rightarrow> string" where
  "admin_or_unknown req = or_else (map_option username (req_admin req)) ''unknown''"

definition mutating_methods :: "string list" where
  "mutating_methods = [''POST'', ''PUT'', ''PATCH'', ''DELETE'']"

definition interceptor_options :: "request \<Rightarrow> response \<Rightarrow> audit_options" where
  "interceptor_options req res =
     \<lparr> opt_target = None,
       opt_changes = None,
       opt_metadata = Some
         [(''path'', JStr (req_path req)),
          (''params'', JObj (map (\<lambda>(k, v). (k, JStr v)) (req_params req))),
          (''statusCode'', JNum (statusCode res))],
       opt_ip = Some (or_else (req_ip req) (or_else (req_remoteAddress req) ''unknown'')),
       opt_userAgent = map_of (req_headers req) ''user-agent'' \<rparr>"

text \<open>The body of the function that \<open>auditMiddleware\<close> puts in place, up to its call of \<open>originalSend\<close>.\<close>

definition audit_hook :: "runtime \<Rightarrow> string \<Rightarrow> request \<Rightarrow> response \<Rightarrow> world \<Rightarrow> unit outcome" where
  "audit_hook rt actionPrefix req res w =
     (if req_method req \<in> set mutating_methods \<and> statusCode res < 400
      then logAuditAction rt (admin_or_unknown req) (actionPrefix @ ''_'' @ req_method req)
             (Some (interceptor_options req res)) w
      else Return () w)"

text \<open>The wrappers from the outermost inwards, each calling the next.\<close>

fun run_hooks :: "runtime \<Rightarrow> request \<Rightarrow> send_hook list \<Rightarrow> response \<Rightarrow> world \<Rightarrow> unit outcome" where
  "run_hooks rt req [] res w = Return () w"
| "run_hooks rt req (AuditHook actionPrefix # originalSend) res w =
     (case audit_hook rt actionPrefix req res w of
        Throw e w1 \<Rightarrow> Throw e w1
      | Return u w1 \<Rightarrow> run_hooks rt req originalSend res w1)"

text \<open>
  \<open>res.send(body)\<close>. The send of the framework, reached through the wrappers, writes a
  string; an object it hands to \<open>this.json\<close>, which serialises it and calls
  \<open>this.send\<close>, the outermost wrapper, once more.
\<close>

definition res_send :: "runtime \<Rightarrow> request \<Rightarrow> body \<Rightarrow> response \<Rightarrow> world \<Rightarrow> response outcome" where
  "res_send rt req b res w =
     (case run_hooks rt req (send_hooks res) res w of
        Throw e w1 \<Rightarrow> Throw e w1
      | Return u w1 \<Rightarrow>
          (case b of
             Object kvs \<Rightarrow>
               (case run_hooks rt req (send_hooks res) res w1 of
                  Throw e w2 \<Rightarrow> Throw e w2
                | Return u w2 \<Rightarrow> Return (res\<lparr>sent := Some (Json (JObj kvs))\<rparr>) w2)
           | _ \<Rightarrow> Return (res\<lparr>sent := Some b\<rparr>) w1))"

text \<open>\<open>res.json(obj)\<close> hands the serialised value to \<open>res.send\<close>.\<close>

definition res_json :: "runtime \<Rightarrow> request \<Rightarrow> jsval \<Rightarrow> response \<Rightarrow> world \<Rightarrow> response outcome" where
  "res_json rt req v res w = res_send rt req (Json v) res w"

text \<open>What is written in the end.\<close>

fun wire :: "body \<Rightarrow> body" where
  "wire (Object kvs) = Json (JObj kvs)"
| "wire b = b"

definition res_status :: "int \<Rightarrow> response \<Rightarrow> response" where
  "res_status code res = res\<lparr>statusCode := code\<rparr>"

text \<open>The middleware itself: it wraps \<open>res.send\<close> and calls \<open>next()\<close>.\<close>

definition auditMiddleware :: "string \<Rightarrow> response \<Rightarrow> response" where
  "auditMiddleware actionPrefix res = res\<lparr>send_hooks := AuditHook actionPrefix # send_hooks res\<rparr>"

section \<open>The Auth Gate and the login handler\<close>

definition validateAdminCredentials :: "jsval \<Rightarrow> jsval \<Rightarrow> world \<Rightarrow> bool \<times> world" where
  "validateAdminCredentials usr password w =
     (if \<not> given (env w ''ADMIN_USERNAME'') \<or> \<not> given (env w ''ADMIN_PASSWORD'')
      then (False, console_error [S ''[Auth] ADMIN_USERNAME or ADMIN_PASSWORD not configured''] w)
      else if usr \<noteq> JStr (the (env w ''ADMIN_USERNAME'')) then (False, w)
      else (password = JStr (the (env w ''ADMIN_PASSWORD'')), w))"

definition generateToken :: "runtime \<Rightarrow> string \<Rightarrow> world \<Rightarrow> exn + string" where
  "generateToken rt usr w =
     (if \<not> given (env w ''JWT_SECRET'') then Inl (JsError ''JWT_SECRET is not configured'')
      else jwt_sign rt usr (the (env w ''JWT_SECRET'')) (or_else (env w ''JWT_EXPIRES_IN'') ''24h''))"

definition verifyToken :: "runtime \<Rightarrow> string \<Rightarrow> world \<Rightarrow> exn + AdminPayload option" where
  "verifyToken rt token w =
     (if \<not> given (env w ''JWT_SECRET'') then Inl (JsError ''JWT_SECRET is not configured'')
      else Inr (jwt_verify rt token (the (env w ''JWT_SECRET''))))"

text \<open>Where a middleware chain leaves a request.\<close>

datatype chain_result =
    Reached request response world
  | Ended response world
  | Failed exn world

fun world_of :: "chain_result \<Rightarrow> world" where
  "world_of (Reached req res w) = w"
| "world_of (Ended res w) = w"
| "world_of (Failed e w) = w"

definition finish :: "response outcome \<Rightarrow> chain_result" where
  "finish r = (case r of Return res w \<Rightarrow> Ended res w | Throw e w \<Rightarrow> Failed e w)"

definition bearer_or_cookie :: "request \<Rightarrow> string option" where
  "bearer_or_cookie req =
     (let cookie = (case map_of (req_cookies req) ''adminToken'' of
                      Some c \<Rightarrow> if c \<noteq> [] then Some c else None
                    | None \<Rightarrow> None)
      in case map_of (req_headers req) ''authorization'' of
           Some h \<Rightarrow> if h \<noteq> [] \<and> startsWith ''Bearer '' h then Some (drop 7 h) else cookie
         | None \<Rightarrow> cookie)"

definition authMiddleware :: "runtime \<Rightarrow> request \<Rightarrow> response \<Rightarrow> world \<Rightarrow> chain_result" where
  "authMiddleware rt req res w =
     (let token = bearer_or_cookie req
      in if \<not> given token
         then finish (res_json rt req (JObj [(''error'', JStr ''Authentication required'')])
                        (res_status 401 res) w)
         else
           (case verifyToken rt (the token) w of
              Inl e \<Rightarrow> Failed e w
            | Inr None \<Rightarrow>
                finish (res_json rt req (JObj [(''error'', JStr ''Invalid or expired token'')])
                          (res_status 401 res) w)
            | Inr (Some payload) \<Rightarrow> Reached (req\<lparr>req_admin := Some payload\<rparr>) res w))"

text \<open>The \<open>catch\<close> block of a route handler.\<close>

definition handler_catch ::
  "runtime \<Rightarrow> request \<Rightarrow> string \<Rightarrow> string \<Rightarrow> exn \<Rightarrow> response \<Rightarrow> world \<Rightarrow> response outcome" where
  "handler_catch rt req label msg e res w =
     res_json rt req (JObj [(''error'', JStr msg)]) (res_status 500 res)
       (console_error [S label, E e] w)"

text \<open>A call inside the \<open>try\<close> block: what it throws goes to the \<open>catch\<close> block.\<close>

definition guarded ::
  "(exn \<Rightarrow> response \<Rightarrow> world \<Rightarrow> response outcome) \<Rightarrow> response \<Rightarrow> response outcome \<Rightarrow> response outcome" where
  "guarded catch res r = (case r of Throw e w \<Rightarrow> catch e res w | Return x w \<Rightarrow> Return x w)"

text \<open>
  \<open>POST /auth/login\<close>. After a successful validation \<open>username\<close> is the configured string,
  which is what \<open>str_of\<close> reads.
\<close>

definition login_success_body :: "string \<Rightarrow> string \<Rightarrow> jsval" where
  "login_success_body token usr =
     JObj [(''success'', JBool True), (''token'', JStr token),
           (''user'', JObj [(''username'', JStr usr), (''role'', JStr ''admin'')])]"

definition login_options :: "request \<Rightarrow> (string \<times> jsval) list option \<Rightarrow> audit_options" where
  "login_options req md =
     \<lparr> opt_target = None, opt_changes = None, opt_metadata = md,
       opt_ip = Some (or_else (req_ip req) ''unknown''), opt_userAgent = None \<rparr>"

definition login_handler :: "runtime \<Rightarrow> request \<Rightarrow> response \<Rightarrow> world \<Rightarrow> response outcome" where
  "login_handler rt req res w =
     (let usr = get_prop (req_body req) ''username'';
          password = get_prop (req_body req) ''password'';
          catch = handler_catch rt req ''[Auth] Login error:'' ''Internal server error''
      in if \<not> truthy usr \<or> \<not> truthy password
         then guarded catch (res_status 400 res)
                (res_json rt req (JObj [(''error'', JStr ''Username and password are required'')])
                   (res_status 400 res) w)
         else
           (let (isValid, w1) = validateAdminCredentials usr password w
            in if \<not> isValid
               then
                 (case logAuditAction rt ''anonymous'' ''LOGIN_FAILED''
                         (Some (login_options req (Some [(''username'', usr)]))) w1 of
                    Throw e w2 \<Rightarrow> catch e res w2
                  | Return u w2 \<Rightarrow>
                      guarded catch (res_status 401 res)
                        (res_json rt req (JObj [(''error'', JStr ''Invalid credentials'')])
                           (res_status 401 res) w2))
               else
                 (case generateToken rt (str_of usr) w1 of
                    Inl e \<Rightarrow> catch e res w1
                  | Inr token \<Rightarrow>
                      (let res1 = res\<lparr>res_cookies := res_cookies res @ [(''adminToken'', token)]\<rparr>
                       in case logAuditAction rt (str_of usr) ''LOGIN_SUCCESS''
                                 (Some (login_options req None)) w1 of
                            Throw e w2 \<Rightarrow> catch e res1 w2
                          | Return u w2 \<Rightarrow>
                              guarded catch res1
                                (res_json rt req (login_success_body token (str_of usr)) res1 w2)))))"

section \<open>Field diffs of the update handlers\<close>

text \<open>
  \<open>a === b\<close>. Two objects or arrays are equal only when they are the same object; those compared
  here come from different places (the stored row and the request), so they never are.
\<close>

fun strict_eq :: "jsval \<Rightarrow> jsval \<Rightarrow> bool" where
  "strict_eq (JObj a) (JObj b) = False"
| "strict_eq (JArr a) (JArr b) = False"
| "strict_eq a b = (a = b)"

text \<open>\<open>obj[key] = v\<close>: an existing key keeps its place.\<close>

definition obj_set :: "(string \<times> 'a) list \<Rightarrow> string \<Rightarrow> 'a \<Rightarrow> (string \<times> 'a) list" where
  "obj_set obj k v =
     (if k \<in> set (map fst obj)
      then map (\<lambda>(k', v'). if k' = k then (k', v) else (k', v')) obj
      else obj @ [(k, v)])"

text \<open>The \<open>select\<close> of a \<open>findUnique\<close>: the stored row cut down to the named fields.\<close>

definition select_fields :: "string list \<Rightarrow> (string \<times> jsval) list \<Rightarrow> (string \<times> jsval) list" where
  "select_fields names row = filter (\<lambda>(k, v). k \<in> set names) row"

definition character_select :: "string list" where
  "character_select =
     [''name'', ''level'', ''gold'', ''coins'', ''honor'', ''stamina'', ''health'', ''isPremium'']"

text \<open>The loop \<open>for (const key of Object.keys(data))\<close> of \<open>PATCH /characters/:id\<close>.\<close>

fun changes_loop ::
  "(string \<times> jsval) list \<Rightarrow> (string \<times> jsval) list \<Rightarrow> string list \<Rightarrow>
   (string \<times> change) list \<Rightarrow> (string \<times> change) list" where
  "changes_loop current data [] chs = chs"
| "changes_loop current data (key # keys) chs =
     (if \<not> strict_eq (get_prop data key) JUndefined \<and>
         \<not> strict_eq (get_prop current key) (get_prop data key)
      then changes_loop current data keys
             (obj_set chs key
                \<lparr> from_val = get_prop current key, to_val = get_prop data key \<rparr>)
      else changes_loop current data keys chs)"

definition character_changes ::
  "(string \<times> jsval) list \<Rightarrow> (string \<times> jsval) list \<Rightarrow> (string \<times> change) list" where
  "character_changes current data = changes_loop current data (map fst data) []"

text \<open>
  \<open>Object.fromEntries(Object.entries(data).map(([k, v]) => [k, { from: 'N/A', to: v }]))\<close>
  of \<open>PATCH /items/:id\<close>.
\<close>

definition Object_fromEntries :: "(string \<times> 'a) list \<Rightarrow> (string \<times> 'a) list" where
  "Object_fromEntries kvs = foldl (\<lambda>obj (k, v). obj_set obj k v) [] kvs"

definition item_changes :: "(string \<times> jsval) list \<Rightarrow> (string \<times> change) list" where
  "item_changes data =
     Object_fromEntries (map (\<lambda>(k, v). (k, \<lparr> from_val = JStr ''N/A'', to_val = v \<rparr>)) data)"

text \<open>The options both handlers pass to the recorder.\<close>

definition name_of :: "(string \<times> jsval) list \<Rightarrow> string option" where
  "name_of current = (case get_prop current ''name'' of JStr s \<Rightarrow> Some s | _ \<Rightarrow> None)"

definition update_options ::
  "request \<Rightarrow> string \<Rightarrow> string \<Rightarrow> string option \<Rightarrow> (string \<times> change) list \<Rightarrow> audit_options" where
  "update_options req ty ident nm chs =
     \<lparr> opt_target = Some \<lparr> t_type = ty, t_id = ident, t_name = nm \<rparr>,
       opt_changes = Some chs,
       opt_metadata = None,
       opt_ip = Some (or_else (req_ip req) ''unknown''),
       opt_userAgent = None \<rparr>"

definition param :: "request \<Rightarrow> string \<Rightarrow> string" where
  "param req k = (case map_of (req_params req) k of None \<Rightarrow> [] | Some v \<Rightarrow> v)"

text \<open>
  \<open>PATCH /characters/:id\<close>. The database is outside the repository: \<open>data\<close> is what the
  schema made of the body, \<open>stored\<close> is what the store answers for the id (an error, no row,
  or the row), and \<open>updated\<close> is what \<open>prisma.character.update\<close> answers.
\<close>

definition patch_character ::
  "runtime \<Rightarrow> request \<Rightarrow> (string \<times> jsval) list \<Rightarrow> exn + (string \<times> jsval) list option \<Rightarrow>
   exn + jsval \<Rightarrow> response \<Rightarrow> world \<Rightarrow> response outcome" where
  "patch_character rt req data stored updated res w =
     (let catch = handler_catch rt req ''[Characters] Update error:'' ''Failed to update character''
      in case stored of
           Inl e \<Rightarrow> catch e res w
         | Inr None \<Rightarrow>
             guarded catch (res_status 404 res)
               (res_json rt req (JObj [(''error'', JStr ''Character not found'')])
                  (res_status 404 res) w)
         | Inr (Some row) \<Rightarrow>
             (let current = select_fields character_select row
              in case updated of
                   Inl e \<Rightarrow> catch e res w
                 | Inr upd \<Rightarrow>
                     (case logAuditAction rt (admin_or_unknown req) ''CHARACTER_UPDATE''
                             (Some (update_options req ''character'' (param req ''id'')
                                      (name_of current) (character_changes current data))) w of
                        Throw e w1 \<Rightarrow> catch e res w1
                      | Return u w1 \<Rightarrow> guarded catch res (res_json rt req upd res w1))))"

text \<open>
  \<open>PATCH /items/:id\<close>, with the database as above; \<open>ident\<close> is
  \<open>parseInt(req.params.id, 10).toString()\<close>.
\<close>

definition patch_item ::
  "runtime \<Rightarrow> request \<Rightarrow> string \<Rightarrow> (string \<times> jsval) list \<Rightarrow> exn + (string \<times> jsval) list option \<Rightarrow>
   exn + jsval \<Rightarrow> response \<Rightarrow> world \<Rightarrow> response outcome" where
  "patch_item rt req ident data stored updated res w =
     (let catch = handler_catch rt req ''[Items] Update error:'' ''Failed to update item''
      in case stored of
           Inl e \<Rightarrow> catch e res w
         | Inr None \<Rightarrow>
             guarded catch (res_status 404 res)
               (res_json rt req (JObj [(''error'', JStr ''Item not found'')])
                  (res_status 404 res) w)
         | Inr (Some row) \<Rightarrow>
             (let current = select_fields [''name''] row
              in case updated of
                   Inl e \<Rightarrow> catch e res w
                 | Inr upd \<Rightarrow>
                     (case logAuditAction rt (admin_or_unknown req) ''ITEM_UPDATE''
                             (Some (update_options req ''item'' ident
                                      (name_of current) (item_changes data))) w of
                        Throw e w1 \<Rightarrow> catch e res w1
                      | Return u w1 \<Rightarrow> guarded catch res (res_json rt req upd res w1))))"

text \<open>
  The diff that a changes map is meant to hold: the supplied fields whose new value is not
  the stored one, each with the stored value and the new one.
\<close>

definition true_diff :: "(string \<times> jsval) list \<Rightarrow> (string \<times> jsval) list \<Rightarrow> (string \<times> change) list" where
  "true_diff row data =
     map (\<lambda>(k, v). (k, \<lparr> from_val = get_prop row k, to_val = v \<rparr>))
       (filter (\<lambda>(k, v). v \<noteq> JUndefined \<and> get_prop row k \<noteq> v) data)"

section \<open>Route wiring (\<open>routes/index.ts\<close> and the routers it mounts)\<close>

datatype middleware = AuthMiddleware | AuditMiddleware string

text \<open>A route of a router: verb, path, and the middleware in front of its handler.\<close>

type_synonym route = "string \<times> string \<times> middleware list"

definition authRoutes :: "route list" where
  "authRoutes = [(''POST'', ''/login'', []), (''POST'', ''/logout'', [])]"

definition dashboardRoutes :: "route list" where
  "dashboardRoutes = [(''GET'', ''/'', []), (''GET'', ''/connection'', [])]"

definition usersRoutes :: "route list" where
  "usersRoutes =
     [(''GET'', ''/'', []), (''GET'', ''/:id'', []), (''PATCH'', ''/:id'', []),
      (''POST'', ''/:id/grant-premium'', []), (''DELETE'', ''/:id'', []),
      (''POST'', ''/:id/premium-accounts'', []),
      (''PATCH'', ''/:id/premium-accounts/:accountId'', []),
      (''DELETE'', ''/:id/premium-accounts/:accountId'', [])]"

definition charactersRoutes :: "route list" where
  "charactersRoutes =
     [(''GET'', ''/'', []), (''GET'', ''/:id'', []), (''PATCH'', ''/:id'', []),
      (''PATCH'', ''/:id/stats'', []), (''POST'', ''/:id/add-currency'', []),
      (''POST'', ''/:id/send-message'', []), (''POST'', ''/:id/reset-progress'', []),
      (''POST'', ''/:id/add-item'', []), (''DELETE'', ''/:id/items/:itemId'', []),
      (''PATCH'', ''/:id/village'', []), (''POST'', ''/:id/kick-from-guild'', []),
      (''PATCH'', ''/:id/arena'', []), (''GET'', ''/:id/inbox'', []),
      (''DELETE'', ''/:id/inbox'', [])]"

definition guildsRoutes :: "route list" where
  "guildsRoutes =
     [(''GET'', ''/'', []), (''GET'', ''/:id'', []), (''PATCH'', ''/:id'', []),
      (''POST'', ''/:id/kick-member'', []), (''POST'', ''/:id/change-rank'', []),
      (''POST'', ''/:id/add-currency'', [])]"

definition itemsRoutes :: "route list" where
  "itemsRoutes =
     [(''GET'', ''/'', []), (''GET'', ''/types'', []), (''GET'', ''/:id'', []),
      (''PATCH'', ''/:id'', []), (''POST'', ''/create-for-character'', []),
      (''DELETE'', ''/:id'', [])]"

definition transactionsRoutes :: "route list" where
  "transactionsRoutes =
     [(''GET'', ''/'', []), (''GET'', ''/:id'', []), (''GET'', ''/stats/summary'', [])]"

definition arenaRoutes :: "route list" where
  "arenaRoutes =
     [(''GET'', ''/leagues'', []), (''GET'', ''/rankings'', []),
      (''GET'', ''/leagues/:id/rankings'', []), (''PATCH'', ''/leagues/:id'', []),
      (''GET'', ''/battles'', []), (''POST'', ''/rankings/:characterId/adjust'', [])]"

text \<open>A registration on the index router: a mounted router or a route of its own.\<close>

datatype registration =
    Use string "middleware list" "route list"
  | Direct string string "middleware list"

definition router :: "registration list" where
  "router =
     [Use ''/auth'' [] authRoutes,
      Direct ''GET'' ''/auth/me'' [AuthMiddleware],
      Direct ''GET'' ''/health'' [],
      Use ''/dashboard'' [AuthMiddleware] dashboardRoutes,
      Use ''/users'' [AuthMiddleware] usersRoutes,
      Use ''/characters'' [AuthMiddleware] charactersRoutes,
      Use ''/guilds'' [AuthMiddleware] guildsRoutes,
      Use ''/items'' [AuthMiddleware] itemsRoutes,
      Use ''/transactions'' [AuthMiddleware] transactionsRoutes,
      Use ''/arena'' [AuthMiddleware] arenaRoutes,
      Direct ''GET'' ''/audit-logs'' [AuthMiddleware],
      Direct ''POST'' ''/system/broadcast'' [AuthMiddleware]]"

text \<open>Every handler of the router with the whole chain of middleware in front of it.\<close>

fun chains_of :: "registration \<Rightarrow> route list" where
  "chains_of (Direct verb p ms) = [(verb, p, ms)]"
| "chains_of (Use p ms sub) = map (\<lambda>(verb, sp, sms). (verb, p @ sp, ms @ sms)) sub"

definition api_chains :: "route list" where
  "api_chains = concat (map chains_of router)"

text \<open>Running the middleware in front of a handler.\<close>

fun run_chain ::
  "runtime \<Rightarrow> middleware list \<Rightarrow> request \<Rightarrow> response \<Rightarrow> world \<Rightarrow> chain_result" where
  "run_chain rt [] req res w = Reached req res w"
| "run_chain rt (AuthMiddleware # ms) req res w =
     (case authMiddleware rt req res w of
        Reached req1 res1 w1 \<Rightarrow> run_chain rt ms req1 res1 w1
      | Ended res1 w1 \<Rightarrow> Ended res1 w1
      | Failed e w1 \<Rightarrow> Failed e w1)"
| "run_chain rt (AuditMiddleware actionPrefix # ms) req res w =
     run_chain rt ms req (auditMiddleware actionPrefix res) w"

section \<open>Concrete inputs\<close>

text \<open>
  Stand-ins for the library functions, used to run the definitions on concrete inputs.
  \<open>toy_parse\<close> knows two kinds of lines, on which it does what \<open>JSON.parse\<close> does: the
  literal \<open>null\<close>, and an object with the one key \<open>timestamp\<close> and a string without
  quotes or escapes; every other line it refuses. \<open>toy_stringify\<close> writes three fields of
  an entry. \<open>code_unit_compare\<close> compares strings by code units.
\<close>

definition quoted :: "string \<Rightarrow> string" where
  "quoted s = CHR 0x22 # s @ [CHR 0x22]"

definition entry_line :: "string \<Rightarrow> string" where
  "entry_line ts = ''{'' @ quoted ''timestamp'' @ '':'' @ quoted ts @ ''}''"

definition entry_at :: "string \<Rightarrow> jsval" where
  "entry_at ts = JObj [(''timestamp'', JStr ts)]"

definition toy_parse :: "string \<Rightarrow> jsval option" where
  "toy_parse l =
     (let opening = ''{'' @ quoted ''timestamp'' @ '':'' @ [CHR 0x22];
          ts = take (length l - length opening - 2) (drop (length opening) l)
      in if l = ''null'' then Some JNull
         else if l = entry_line ts \<and> CHR 0x22 \<notin> set ts \<and> CHR 0x5C \<notin> set ts \<and>
                 list_all (\<lambda>c. CHR 0x20 \<le> c) ts
         then Some (entry_at ts)
         else None)"

definition toy_stringify :: "AuditLogEntry \<Rightarrow> exn + string" where
  "toy_stringify e =
     Inr (''{'' @ quoted ''timestamp'' @ '':'' @ quoted (timestamp e) @ '','' @
          quoted ''action'' @ '':'' @ quoted (action e) @ '','' @
          quoted ''admin'' @ '':'' @ quoted (admin e) @ ''}'')"

definition code_unit_compare :: "string \<Rightarrow> string \<Rightarrow> int" where
  "code_unit_compare s t = (if s < t then - 1 else if s = t then 0 else 1)"

text \<open>
  A comparison that, like the collation behind \<open>localeCompare\<close>, puts punctuation before
  digits and digits before letters: \<open>1:\<close> comes before \<open>10\<close>, where code units put
  \<open>10\<close> first.
\<close>

definition collation_weight :: "char \<Rightarrow> nat" where
  "collation_weight c =
     (if is_digit c then 1000 + of_char c
      else if (CHR ''A'' \<le> c \<and> c \<le> CHR ''Z'') \<or> (CHR ''a'' \<le> c \<and> c \<le> CHR ''z'')
      then 2000 + of_char c
      else of_char c)"

definition collating_compare :: "string \<Rightarrow> string \<Rightarrow> int" where
  "collating_compare s t =
     (if map collation_weight s < map collation_weight t then - 1
      else if map collation_weight s = map collation_weight t then 0 else 1)"

definition toy_sign :: "string \<Rightarrow> string \<Rightarrow> string \<Rightarrow> exn + string" where
  "toy_sign usr secret expiresIn = Inr (''signed:'' @ usr)"

definition toy_verify :: "string \<Rightarrow> string \<Rightarrow> AdminPayload option" where
  "toy_verify token secret =
     (if take 7 token = ''signed:''
      then Some \<lparr> username = drop 7 token, iat = 0, exp = 86400 \<rparr> else None)"

definition toy_runtime :: runtime where
  "toy_runtime =
     \<lparr> JSON_parse = toy_parse, JSON_stringify = toy_stringify,
       localeCompare = code_unit_compare, jwt_sign = toy_sign, jwt_verify = toy_verify \<rparr>"

definition collating_runtime :: runtime where
  "collating_runtime = toy_runtime\<lparr>localeCompare := collating_compare\<rparr>"

definition no_read_fault :: "string \<Rightarrow> exn option" where
  "no_read_fault f = None"

definition fixed_clock :: "nat \<Rightarrow> string" where
  "fixed_clock n = ''2024-01-02T10:00:00.000Z''"

definition test_env :: "string \<Rightarrow> string option" where
  "test_env =
     [''AUDIT_LOG_ENABLED'' \<mapsto> ''true'', ''ADMIN_USERNAME'' \<mapsto> ''root'',
      ''ADMIN_PASSWORD'' \<mapsto> ''hunter2'', ''JWT_SECRET'' \<mapsto> ''s3cret'']"

text \<open>A healthy machine with persistence switched on and an empty log directory.\<close>

definition quiet_world :: world where
  "quiet_world =
     \<lparr> env = test_env, clock = fixed_clock, tick = 0, log_dir = Some [], console = [],
       mkdir_fault = None, append_fault = None, readdir_fault = None,
       read_fault = no_read_fault \<rparr>"

text \<open>The same machine with a full disk, and with persistence switched off.\<close>

definition full_disk_world :: world where
  "full_disk_world = quiet_world\<lparr>append_fault := Some (FsError ''ENOSPC'')\<rparr>"

definition off_env :: "string \<Rightarrow> string option" where
  "off_env = [''AUDIT_LOG_ENABLED'' \<mapsto> ''false'']"

definition off_world :: world where
  "off_world = quiet_world\<lparr>env := off_env\<rparr>"

text \<open>The credentials are configured, the signing secret is not.\<close>

definition no_secret_env :: "string \<Rightarrow> string option" where
  "no_secret_env =
     [''AUDIT_LOG_ENABLED'' \<mapsto> ''true'', ''ADMIN_USERNAME'' \<mapsto> ''root'',
      ''ADMIN_PASSWORD'' \<mapsto> ''hunter2'']"

definition no_secret_world :: world where
  "no_secret_world = quiet_world\<lparr>env := no_secret_env\<rparr>"

text \<open>Three days of logs and a file that is no daily log.\<close>

definition three_days :: "(string \<times> string) list" where
  "three_days =
     [(''audit-2024-01-01.json'', file_of_lines [entry_line ''2024-01-01T08:00:00.000Z'']),
      (''audit-2024-01-02.json'',
         file_of_lines [entry_line ''2024-01-02T09:00:00.000Z'',
                        entry_line ''2024-01-02T11:30:00.000Z'']),
      (''notes.txt'', ''remember the backup''),
      (''audit-2024-01-03.json'', file_of_lines [entry_line ''2024-01-03T07:00:00.000Z''])]"

definition three_days_world :: world where
  "three_days_world = quiet_world\<lparr>log_dir := Some three_days\<rparr>"



text \<open>
  Daily logs that the reader does not take as the claims say: an entry and the line
  \<open>null\<close>; an entry, the cut line and \<open>null\<close>; an entry and a last line of three spaces;
  two entries whose hours were written without padding.
\<close>

definition null_line_world :: world where
  "null_line_world =
     quiet_world\<lparr>log_dir := Some
       [(''audit-2024-01-02.json'',
           file_of_lines [entry_line ''2024-01-02T09:00:00.000Z'', ''null''])]\<rparr>"



definition odd_hours_world :: world where
  "odd_hours_world =
     quiet_world\<lparr>log_dir := Some
       [(''audit-2024-01-02.json'',
           file_of_lines [entry_line ''2024-01-02T1:00:00Z'',
                          entry_line ''2024-01-02T10:00:00Z''])]\<rparr>"

text \<open>The first of the three daily logs cannot be read.\<close>

definition first_unreadable :: "string \<Rightarrow> exn option" where
  "first_unreadable f = (if f = ''audit-2024-01-01.json'' then Some (FsError ''EACCES'') else None)"

definition unreadable_world :: world where
  "unreadable_world = three_days_world\<lparr>read_fault := first_unreadable\<rparr>"

text \<open>Requests: a successful create by \<open>root\<close>, a good and a bad login.\<close>

definition root_payload :: AdminPayload where
  "root_payload = \<lparr> username = ''root'', iat = 0, exp = 86400 \<rparr>"

definition post_request :: request where
  "post_request =
     \<lparr> req_method = ''POST'', req_path = ''/7/add-item'', req_params = [(''id'', ''7'')],
       req_body = [], req_headers = [(''user-agent'', ''curl'')], req_cookies = [],
       req_admin = Some root_payload, req_ip = Some ''10.0.0.1'', req_remoteAddress = None \<rparr>"

definition good_login :: request where
  "good_login =
     \<lparr> req_method = ''POST'', req_path = ''/login'', req_params = [],
       req_body = [(''username'', JStr ''root''), (''password'', JStr ''hunter2'')],
       req_headers = [], req_cookies = [], req_admin = None, req_ip = Some ''10.0.0.1'',
       req_remoteAddress = None \<rparr>"

definition bad_login :: request where
  "bad_login = good_login\<lparr>req_body := [(''username'', JStr ''root''), (''password'', JStr ''guess'')]\<rparr>"

text \<open>An update of character \<open>c1\<close> that carries a token of \<open>root\<close>.\<close>

definition patch_request :: request where
  "patch_request =
     \<lparr> req_method = ''PATCH'', req_path = ''/c1'', req_params = [(''id'', ''c1'')],
       req_body = [(''level'', JNum 6)],
       req_headers = [(''authorization'', ''Bearer signed:root'')], req_cookies = [],
       req_admin = None, req_ip = Some ''10.0.0.1'', req_remoteAddress = None \<rparr>"

text \<open>
  The response of a handler that answered 201, behind an interceptor for \<open>CHARACTER\<close>;
  and a fresh response.
\<close>

definition created_response :: response where
  "created_response = auditMiddleware ''CHARACTER'' (res_status 201 new_response)"

text \<open>
  A stored character, and the body the character editor of the client sends when the
  operator raises the level from 5 to 6 and the gold from 100 to 150: the form always
  carries all seven fields.
\<close>

definition hero_row :: "(string \<times> jsval) list" where
  "hero_row =
     [(''id'', JStr ''c1''), (''name'', JStr ''Hero''), (''level'', JNum 5),
      (''experience'', JNum 1200), (''gold'', JNum 100), (''coins'', JNum 10),
      (''honor'', JNum 3), (''stamina'', JNum 50), (''health'', JNum 80),
      (''isPremium'', JBool False)]"

definition editor_form :: "(string \<times> jsval) list" where
  "editor_form =
     [(''level'', JNum 6), (''experience'', JNum 1200), (''gold'', JNum 150),
      (''coins'', JNum 10), (''honor'', JNum 3), (''stamina'', JNum 50), (''health'', JNum 80)]"

text \<open>A stored item and an update of its price.\<close>

definition sword_row :: "(string \<times> jsval) list" where
  "sword_row = [(''id'', JNum 7), (''name'', JStr ''Sword''), (''gold'', JNum 100)]"

definition price_update :: "(string \<times> jsval) list" where
  "price_update = [(''gold'', JNum 150)]"

section \<open>The reader: range and order\<close>

lemma parse_lines_fst: "fst (parse_lines rt ls (acc, w)) = acc @ List.map_filter (JSON_parse rt) ls"
  by (induction ls arbitrary: acc w) (auto simp: List.map_filter_simps split: option.splits)

lemma parse_lines_snd_dir: "log_dir (snd (parse_lines rt ls (acc, w))) = log_dir w"
  by (induction ls arbitrary: acc w) (auto simp: console_warn_def split: option.splits)

lemma parse_lines_snd_fault: "read_fault (snd (parse_lines rt ls (acc, w))) = read_fault w"
  by (induction ls arbitrary: acc w) (auto simp: console_warn_def split: option.splits)

lemma range_conds:
  "file_match f = Some d \<Longrightarrow>
     in_range sd ed f = (\<not> before_start sd d \<and> \<not> after_end ed d)"
  by (auto simp: in_range_def before_start_def after_end_def split: option.splits)

lemma in_range_None: "file_match f = None \<Longrightarrow> \<not> in_range sd ed f"
  by (simp add: in_range_def)

lemma read_files_ok:
  assumes "\<forall>f\<in>set fs. in_range sd ed f \<longrightarrow> read_fault w f = None \<and> f \<in> fst ` set (dir_files w)"
  shows "\<exists>w'. read_files rt sd ed fs (acc, w) =
           Return (acc @ concat (map (\<lambda>f. parsed_entries rt (file_content w f)) (filter (in_range sd ed) fs))) w'
         \<and> log_dir w' = log_dir w \<and> read_fault w' = read_fault w"
  using assms
proof (induction fs arbitrary: acc w)
  case Nil
  then show ?case by simp
next
  case (Cons f fs)
  show ?case
  proof (cases "in_range sd ed f")
    case False
    then have "read_files rt sd ed (f # fs) (acc, w) = read_files rt sd ed fs (acc, w)"
      by (auto simp: range_conds split: option.splits)
    with Cons False show ?thesis by simp
  next
    case True
    then obtain d where d: "file_match f = Some d"
      by (auto simp: in_range_def split: option.splits)
    from True d have c: "\<not> before_start sd d" "\<not> after_end ed d"
      by (simp_all add: range_conds)
    from True Cons.prems have nf: "read_fault w f = None" and ex: "f \<in> fst ` set (dir_files w)"
      by auto
    from ex obtain c0 where c0: "map_of (dir_files w) f = Some c0"
      by (metis map_of_eq_None_iff not_Some_eq)
    then have rd: "fs_readFileSync f w = Return c0 w"
      using nf by (auto simp: fs_readFileSync_def dir_files_def split: option.splits)
    have fc: "file_content w f = c0" using c0 by (simp add: file_content_def)
    obtain es w1 where pl: "parse_lines rt (js_lines c0) (acc, w) = (es, w1)"
      by (cases "parse_lines rt (js_lines c0) (acc, w)")
    have es: "es = acc @ parsed_entries rt c0"
      using parse_lines_fst[of rt "js_lines c0" acc w] pl by (simp add: parsed_entries_def)
    have w1d: "log_dir w1 = log_dir w" using parse_lines_snd_dir[of rt "js_lines c0" acc w] pl by simp
    have w1f: "read_fault w1 = read_fault w" using parse_lines_snd_fault[of rt "js_lines c0" acc w] pl by simp
    have step: "read_files rt sd ed (f # fs) (acc, w) = read_files rt sd ed fs (es, w1)"
      using d c rd pl by simp
    have pre: "\<forall>g\<in>set fs. in_range sd ed g \<longrightarrow> read_fault w1 g = None \<and> g \<in> fst ` set (dir_files w1)"
      using Cons.prems w1d w1f by (simp add: dir_files_def)
    from Cons.IH[OF pre, of es] obtain w' where
      r: "read_files rt sd ed fs (es, w1) =
            Return (es @ concat (map (\<lambda>f. parsed_entries rt (file_content w1 f)) (filter (in_range sd ed) fs))) w'"
      and k: "log_dir w' = log_dir w1" "read_fault w' = read_fault w1" by blast
    have same: "file_content w1 = file_content w"
      using w1d by (auto simp: file_content_def dir_files_def fun_eq_iff)
    show ?thesis using step r k True es fc same w1d w1f by simp
  qed
qed

lemma insert_by_returns:
  assumes "\<forall>y\<in>set ys. \<exists>c. cmp x y = Inr c"
  shows "\<exists>zs. insert_by cmp x ys = Inr zs \<and> mset zs = add_mset x (mset ys)"
  using assms
proof (induction ys)
  case Nil
  then show ?case by simp
next
  case (Cons y ys)
  then obtain c where c: "cmp x y = Inr c" by auto
  from Cons obtain zs where zs: "insert_by cmp x ys = Inr zs" "mset zs = add_mset x (mset ys)"
    by auto
  show ?case using c zs by simp
qed

lemma sort_loop_returns:
  assumes "\<forall>x\<in>set xs \<union> set acc. \<forall>y\<in>set xs \<union> set acc. \<exists>c. cmp x y = Inr c"
  shows "\<exists>zs. sort_loop cmp xs acc = Inr zs \<and> mset zs = mset xs + mset acc"
  using assms
proof (induction xs arbitrary: acc)
  case Nil
  then show ?case by simp
next
  case (Cons x xs)
  have "\<forall>y\<in>set acc. \<exists>c. cmp x y = Inr c" using Cons.prems by auto
  from insert_by_returns[where cmp = cmp and x = x and ys = acc, OF this] obtain acc1 where
    a: "insert_by cmp x acc = Inr acc1" "mset acc1 = add_mset x (mset acc)" by blast
  then have s: "set acc1 = insert x (set acc)" by (metis set_mset_add_mset_insert set_mset_mset)
  have "\<exists>zs. sort_loop cmp xs acc1 = Inr zs \<and> mset zs = mset xs + mset acc1"
    by (rule Cons.IH) (use Cons.prems s in auto)
  then show ?case using a by auto
qed

lemma insert_by_sorted:
  assumes "\<forall>y\<in>set ys. \<exists>c. cmp x y = Inr c \<and> (c < 0) = (key y < key x)"
      and "sorted_wrt (\<lambda>a b. key b \<le> key a) ys"
      and "insert_by cmp x ys = Inr zs"
  shows "sorted_wrt (\<lambda>a b. key b \<le> (key a :: 'k :: linorder)) zs \<and> set zs = insert x (set ys)"
  using assms
proof (induction ys arbitrary: zs)
  case Nil
  then show ?case by auto
next
  case (Cons y ys)
  then obtain c where c: "cmp x y = Inr c" "(c < 0) = (key y < key x)" by auto
  show ?case
  proof (cases "c < 0")
    case True
    then have "zs = x # y # ys" using Cons.prems(3) c by simp
    then show ?thesis using True c Cons.prems(2) by auto
  next
    case False
    then obtain zs' where z: "insert_by cmp x ys = Inr zs'" "zs = y # zs'"
      using Cons.prems(3) c by (auto split: sum.splits)
    have "sorted_wrt (\<lambda>a b. key b \<le> key a) zs' \<and> set zs' = insert x (set ys)"
      by (rule Cons.IH) (use Cons.prems z in auto)
    then show ?thesis using z False c Cons.prems(2) by auto
  qed
qed

lemma sort_loop_sorted:
  assumes "\<forall>x\<in>set xs \<union> set acc. \<forall>y\<in>set xs \<union> set acc.
             \<exists>c. cmp x y = Inr c \<and> (c < 0) = (key y < key x)"
      and "sorted_wrt (\<lambda>a b. key b \<le> key a) acc"
      and "sort_loop cmp xs acc = Inr zs"
  shows "sorted_wrt (\<lambda>a b. key b \<le> (key a :: 'k :: linorder)) zs"
  using assms
proof (induction xs arbitrary: acc)
  case Nil
  then show ?case by simp
next
  case (Cons x xs)
  from Cons.prems(3) obtain acc1 where
    a: "insert_by cmp x acc = Inr acc1" "sort_loop cmp xs acc1 = Inr zs"
    by (auto split: sum.splits)
  have s: "sorted_wrt (\<lambda>a b. key b \<le> key a) acc1 \<and> set acc1 = insert x (set acc)"
    by (rule insert_by_sorted[where cmp = cmp]) (use Cons.prems a in auto)
  show ?case
    by (rule Cons.IH[of acc1]) (use Cons.prems s a in auto)
qed

lemma compare_entries:
  "is_entry a \<Longrightarrow> is_entry b \<Longrightarrow>
     compare_newest_first rt a b = Inr (localeCompare rt (timestamp_of b) (timestamp_of a))"
  by (cases a; cases b) (auto simp: compare_newest_first_def split: jsval.splits)

lemma sort_entries_returns:
  assumes "\<forall>e\<in>set es. is_entry e"
  shows "\<exists>zs. js_sort (compare_newest_first rt) es = Inr zs \<and> mset zs = mset es"
proof -
  have "\<exists>zs. sort_loop (compare_newest_first rt) es [] = Inr zs \<and> mset zs = mset es + mset []"
    by (rule sort_loop_returns) (use assms in \<open>auto simp: compare_entries\<close>)
  then show ?thesis by (simp add: js_sort_def)
qed

lemma sort_entries_sorted:
  assumes "\<forall>e\<in>set es. is_entry e"
      and "\<forall>a\<in>set es. \<forall>b\<in>set es.
             (localeCompare rt (timestamp_of a) (timestamp_of b) < 0) = (timestamp_of a < timestamp_of b)"
      and "js_sort (compare_newest_first rt) es = Inr zs"
  shows "sorted_wrt (\<lambda>a b. timestamp_of b \<le> timestamp_of a) zs"
proof (rule sort_loop_sorted[where cmp = "compare_newest_first rt" and xs = es and acc = "[]"])
  show "\<forall>x\<in>set es \<union> set []. \<forall>y\<in>set es \<union> set [].
          \<exists>c. compare_newest_first rt x y = Inr c \<and> (c < 0) = (timestamp_of y < timestamp_of x)"
    using assms(1,2) by (auto simp: compare_entries)
  show "sorted_wrt (\<lambda>a b. timestamp_of b \<le> timestamp_of a) []" by simp
  show "sort_loop (compare_newest_first rt) es [] = Inr zs" using assms(3) by (simp add: js_sort_def)
qed

lemma daily_name_is_selected:
  assumes "date_shape d"
  shows "file_match (''audit-'' @ d @ ''.json'') = Some d"
    and "startsWith ''audit-'' (''audit-'' @ d @ ''.json'')"
    and "endsWith ''.json'' (''audit-'' @ d @ ''.json'')"
    and "in_range None None (''audit-'' @ d @ ''.json'')"
proof -
  from assms have l: "length d = 10" by (simp add: date_shape_def)
  then have m: "match_here (''audit-'' @ d @ ''.json'') = Some d"
    using assms by (simp add: match_here_def)
  then show 1: "file_match (''audit-'' @ d @ ''.json'') = Some d" by simp
  show "startsWith ''audit-'' (''audit-'' @ d @ ''.json'')" by (simp add: startsWith_def)
  show "endsWith ''.json'' (''audit-'' @ d @ ''.json'')" using l by (simp add: endsWith_def)
  show "in_range None None (''audit-'' @ d @ ''.json'')" using 1 by (simp add: in_range_def)
qed



lemma split_nl_line:
  "CHR 0x0A \<notin> set l \<Longrightarrow> split_nl (l @ CHR 0x0A # rest) = l # split_nl rest"
  by (induction l) auto

lemma split_nl_plain: "CHR 0x0A \<notin> set l \<Longrightarrow> split_nl l = [l]"
  by (induction l) auto

lemma split_nl_file:
  "\<forall>l\<in>set xs. CHR 0x0A \<notin> set l \<Longrightarrow> CHR 0x0A \<notin> set l' \<Longrightarrow>
     split_nl (file_of_lines xs @ l') = xs @ [l']"
  by (induction xs) (auto simp: file_of_lines_def split_nl_line split_nl_plain)

lemma file_of_lines_snoc: "file_of_lines (xs @ [l]) = file_of_lines xs @ l @ [CHR 0x0A]"
  by (simp add: file_of_lines_def)

lemma hd_file_of_lines:
  "xs \<noteq> [] \<Longrightarrow> hd xs \<noteq> [] \<Longrightarrow> hd (file_of_lines xs @ r) = hd (hd xs)"
  by (cases xs) (auto simp: file_of_lines_def)

lemma trim_body:
  assumes "b \<noteq> []" "\<not> is_space (hd b)" "\<not> is_space (last b)"
  shows "trim (b @ [CHR 0x0A]) = b"
proof -
  have 1: "dropWhile is_space (b @ [CHR 0x0A]) = b @ [CHR 0x0A]"
    using assms by (cases b) auto
  have 2: "dropWhile is_space (rev b) = rev b"
    using assms by (cases "rev b") (auto simp: last_rev[symmetric] hd_rev)
  have "is_space (CHR 0x0A)" by (simp add: is_space_def)
  then show ?thesis using 1 2 by (simp add: trim_def)
qed

lemma js_lines_file:
  assumes "ls \<noteq> []" "\<forall>l\<in>set ls. clean_line l"
  shows "js_lines (file_of_lines ls) = ls"
proof -
  obtain xs l where ls: "ls = xs @ [l]" using assms(1) by (metis rev_exhaust)
  let ?b = "file_of_lines xs @ l"
  have cl: "clean_line l" "\<forall>x\<in>set xs. clean_line x" using assms(2) ls by auto
  have ne: "?b \<noteq> []" using cl by (simp add: clean_line_def)
  have h: "\<not> is_space (hd ?b)"
  proof (cases xs)
    case Nil
    then show ?thesis using cl by (simp add: file_of_lines_def clean_line_def)
  next
    case (Cons x xs')
    then have "hd ?b = hd x" using cl by (simp add: file_of_lines_def clean_line_def)
    then show ?thesis using cl Cons by (simp add: clean_line_def)
  qed
  have la: "\<not> is_space (last ?b)" using cl by (simp add: clean_line_def)
  have "file_of_lines ls = ?b @ [CHR 0x0A]" by (simp add: ls file_of_lines_snoc)
  then have "trim (file_of_lines ls) = ?b" using trim_body[OF ne h la] by simp
  moreover have "split_nl ?b = xs @ [l]"
    by (rule split_nl_file) (use cl in \<open>auto simp: clean_line_def\<close>)
  ultimately show ?thesis using assms(2) by (simp add: js_lines_def ls clean_line_def)
qed

lemma readAuditLogs_sorted_permutation:
  assumes dir: "log_dir w = None \<longrightarrow> mkdir_fault w = None"
      and rd: "readdir_fault w = None"
      and rf: "\<forall>f\<in>set (selected_files sd ed w). read_fault w f = None"
      and en: "\<forall>e\<in>set (expected_entries rt sd ed w). is_entry e"
      and lc: "\<forall>a\<in>set (expected_entries rt sd ed w). \<forall>b\<in>set (expected_entries rt sd ed w).
                 (localeCompare rt (timestamp_of a) (timestamp_of b) < 0)
                   = (timestamp_of a < timestamp_of b)"
  shows "\<exists>es w'. readAuditLogs rt sd ed w = Return es w' \<and>
           mset es = mset (expected_entries rt sd ed w) \<and>
           sorted_wrt (\<lambda>a b. timestamp_of b \<le> timestamp_of a) es"
proof (cases "log_dir w")
  case None
  with dir have "mkdir_fault w = None" by simp
  with None rd have "readAuditLogs rt sd ed w = Return [] (w\<lparr>log_dir := Some []\<rparr>)"
    by (simp add: readAuditLogs_def ensureLogDir_def fs_mkdirSync_def fs_readdirSync_def
        audit_file_names_def js_sort_def)
  moreover from None have "expected_entries rt sd ed w = []"
    by (simp add: expected_entries_def selected_files_def dir_files_def audit_file_names_def)
  ultimately show ?thesis by simp
next
  case (Some fs)
  let ?names = "audit_file_names (map fst fs)"
  let ?E = "expected_entries rt sd ed w"
  have df: "dir_files w = fs" using Some by (simp add: dir_files_def)
  have pre: "\<forall>f\<in>set ?names. in_range sd ed f \<longrightarrow> read_fault w f = None \<and> f \<in> fst ` set (dir_files w)"
    using rf df by (auto simp: selected_files_def audit_file_names_def)
  from read_files_ok[OF pre, of rt "[]"] obtain w' where
    r: "read_files rt sd ed ?names ([], w) = Return ?E w'"
    by (auto simp: expected_entries_def selected_files_def df)
  from sort_entries_returns[OF en, of rt] obtain zs where
    z: "js_sort (compare_newest_first rt) ?E = Inr zs" "mset zs = mset ?E" by blast
  have res: "readAuditLogs rt sd ed w = Return zs w'"
    using Some rd r z by (simp add: readAuditLogs_def ensureLogDir_def fs_readdirSync_def)
  have srt: "sorted_wrt (\<lambda>a b. timestamp_of b \<le> timestamp_of a) zs"
    by (rule sort_entries_sorted[OF en lc z(1)])
  show ?thesis using res srt z by simp
qed

lemma daily_name_in_range:
  assumes "date_shape d"
  shows "(''audit-'' @ d @ ''.json'' \<in> set (selected_files sd ed w)) =
         (''audit-'' @ d @ ''.json'' \<in> fst ` set (dir_files w) \<and>
          (case sd of None \<Rightarrow> True | Some s \<Rightarrow> s = [] \<or> s \<le> d) \<and>
          (case ed of None \<Rightarrow> True | Some e \<Rightarrow> e = [] \<or> d \<le> e))"
  using daily_name_is_selected(1-3)[OF assms]
  by (auto simp: selected_files_def audit_file_names_def in_range_def)

lemma parsed_entries_file:
  assumes "ls \<noteq> []" "\<forall>l\<in>set ls. clean_line l" "file_content w f = file_of_lines ls"
  shows "parsed_entries rt (file_content w f) = List.map_filter (JSON_parse rt) ls"
  using js_lines_file[OF assms(1,2)] assms(3) by (simp add: parsed_entries_def)

text \<open>
  Claim C1, as amended. When the directory can be listed and the selected files can be read,
  every line that parses is an entry (an object with a string \<open>timestamp\<close>), and
  \<open>localeCompare\<close> puts the timestamps read in the order of their code units, as it does
  with the instants the recorder writes, then \<open>readAuditLogs\<close> returns exactly the entries
  that the lines of the selected files parse to, newest first by the code-unit order of the
  timestamps. A file \<open>audit-YYYY-MM-DD.json\<close> of the directory is selected exactly when its
  date is inside the bounds, both ends included (a bound that is \<open>undefined\<close> or empty does
  not bind), and a file of lines closed by line feeds, none of them blank or with white
  space around it, gives the values its lines parse to, in their order.
\<close>

theorem readAuditLogs_range_sorted:
  assumes dir: "log_dir w = None \<longrightarrow> mkdir_fault w = None"
      and rd: "readdir_fault w = None"
      and rf: "\<forall>f\<in>set (selected_files sd ed w). read_fault w f = None"
      and en: "\<forall>e\<in>set (expected_entries rt sd ed w). is_entry e"
      and lc: "\<forall>a\<in>set (expected_entries rt sd ed w). \<forall>b\<in>set (expected_entries rt sd ed w).
                 (localeCompare rt (timestamp_of a) (timestamp_of b) < 0)
                   = (timestamp_of a < timestamp_of b)"
  shows "(\<exists>es w'. readAuditLogs rt sd ed w = Return es w' \<and>
            mset es = mset (expected_entries rt sd ed w) \<and>
            sorted_wrt (\<lambda>a b. timestamp_of b \<le> timestamp_of a) es) \<and>
         (\<forall>d. date_shape d \<longrightarrow>
            (''audit-'' @ d @ ''.json'' \<in> set (selected_files sd ed w)) =
            (''audit-'' @ d @ ''.json'' \<in> fst ` set (dir_files w) \<and>
             (case sd of None \<Rightarrow> True | Some s \<Rightarrow> s = [] \<or> s \<le> d) \<and>
             (case ed of None \<Rightarrow> True | Some e \<Rightarrow> e = [] \<or> d \<le> e))) \<and>
         (\<forall>f ls. ls \<noteq> [] \<and> (\<forall>l\<in>set ls. clean_line l) \<and> file_content w f = file_of_lines ls \<longrightarrow>
            parsed_entries rt (file_content w f) = List.map_filter (JSON_parse rt) ls)"
  using readAuditLogs_sorted_permutation[OF dir rd rf en lc] daily_name_in_range parsed_entries_file
  by blast

lemma code_unit_compare_less: "(code_unit_compare s t < 0) = (s < t)"
  by (simp add: code_unit_compare_def)

lemma three_days_expected:
  "expected_entries toy_runtime (Some ''2024-01-02'') (Some ''2024-01-02'') three_days_world
   = [entry_at ''2024-01-02T09:00:00.000Z'', entry_at ''2024-01-02T11:30:00.000Z'']"
  by code_simp

lemma ds: "date_shape ''2024-01-01''" "date_shape ''2024-01-02''" "date_shape ''2024-01-03''"
  by code_simp+

lemma three_days_names:
  "fst ` set (dir_files three_days_world) =
     {''audit-2024-01-01.json'', ''audit-2024-01-02.json'', ''notes.txt'', ''audit-2024-01-03.json''}"
  by (simp add: three_days_world_def three_days_def dir_files_def quiet_world_def)

lemma cl2: "\<forall>l\<in>set [entry_line ''2024-01-02T09:00:00.000Z'', entry_line ''2024-01-02T11:30:00.000Z'']. clean_line l"
  by code_simp

lemma fc2: "file_content three_days_world ''audit-2024-01-02.json'' =
   file_of_lines [entry_line ''2024-01-02T09:00:00.000Z'', entry_line ''2024-01-02T11:30:00.000Z'']"
  by (simp add: three_days_world_def three_days_def dir_files_def quiet_world_def file_content_def)

lemma mf2: "List.map_filter (JSON_parse toy_runtime) [entry_line ''2024-01-02T09:00:00.000Z'', entry_line ''2024-01-02T11:30:00.000Z'']
  = [entry_at ''2024-01-02T09:00:00.000Z'', entry_at ''2024-01-02T11:30:00.000Z'']"
  by code_simp

theorem readAuditLogs_range_sorted_witness:
  "(\<exists>es w'. readAuditLogs toy_runtime (Some ''2024-01-02'') (Some ''2024-01-02'') three_days_world = Return es w' \<and>
     mset es = mset [entry_at ''2024-01-02T09:00:00.000Z'', entry_at ''2024-01-02T11:30:00.000Z''] \<and>
     sorted_wrt (\<lambda>a b. timestamp_of b \<le> timestamp_of a) es) \<and>
   ''audit-2024-01-01.json'' \<notin> set (selected_files (Some ''2024-01-02'') (Some ''2024-01-02'') three_days_world) \<and>
   ''audit-2024-01-02.json'' \<in> set (selected_files (Some ''2024-01-02'') (Some ''2024-01-02'') three_days_world) \<and>
   ''audit-2024-01-03.json'' \<notin> set (selected_files (Some ''2024-01-02'') (Some ''2024-01-02'') three_days_world) \<and>
   parsed_entries toy_runtime (file_content three_days_world ''audit-2024-01-02.json'') =
     [entry_at ''2024-01-02T09:00:00.000Z'', entry_at ''2024-01-02T11:30:00.000Z'']"
proof -
  have 1: "log_dir three_days_world = None \<longrightarrow> mkdir_fault three_days_world = None"
    by (simp add: three_days_world_def quiet_world_def)
  have 2: "readdir_fault three_days_world = None"
    by (simp add: three_days_world_def quiet_world_def)
  have 3: "\<forall>f\<in>set (selected_files (Some ''2024-01-02'') (Some ''2024-01-02'') three_days_world).
             read_fault three_days_world f = None"
    by (simp add: three_days_world_def quiet_world_def no_read_fault_def)
  have 4: "\<forall>e\<in>set (expected_entries toy_runtime (Some ''2024-01-02'') (Some ''2024-01-02'') three_days_world).
             is_entry e"
    by (simp add: three_days_expected entry_at_def get_prop_def)
  have 5: "\<forall>a\<in>set (expected_entries toy_runtime (Some ''2024-01-02'') (Some ''2024-01-02'') three_days_world).
           \<forall>b\<in>set (expected_entries toy_runtime (Some ''2024-01-02'') (Some ''2024-01-02'') three_days_world).
             (localeCompare toy_runtime (timestamp_of a) (timestamp_of b) < 0)
               = (timestamp_of a < timestamp_of b)"
    by (simp add: toy_runtime_def code_unit_compare_less)
  note t = readAuditLogs_range_sorted[OF 1 2 3 4 5]
  from t have a: "\<exists>es w'. readAuditLogs toy_runtime (Some ''2024-01-02'') (Some ''2024-01-02'') three_days_world = Return es w' \<and>
     mset es = mset [entry_at ''2024-01-02T09:00:00.000Z'', entry_at ''2024-01-02T11:30:00.000Z''] \<and>
     sorted_wrt (\<lambda>a b. timestamp_of b \<le> timestamp_of a) es"
    by (simp only: three_days_expected)
  note sel = t[THEN conjunct2, THEN conjunct1, rule_format]
  have b: "''audit-2024-01-01.json'' \<notin> set (selected_files (Some ''2024-01-02'') (Some ''2024-01-02'') three_days_world)"
    using sel[OF ds(1)] by simp
  have c: "''audit-2024-01-02.json'' \<in> set (selected_files (Some ''2024-01-02'') (Some ''2024-01-02'') three_days_world)"
    using sel[OF ds(2)] by (simp add: three_days_names)
  have d: "''audit-2024-01-03.json'' \<notin> set (selected_files (Some ''2024-01-02'') (Some ''2024-01-02'') three_days_world)"
    using sel[OF ds(3)] by simp
  have e: "parsed_entries toy_runtime (file_content three_days_world ''audit-2024-01-02.json'') =
     [entry_at ''2024-01-02T09:00:00.000Z'', entry_at ''2024-01-02T11:30:00.000Z'']"
    using t[THEN conjunct2, THEN conjunct2, rule_format, OF conjI[OF _ conjI[OF cl2 fc2]]]
    unfolding mf2 by blast
  show ?thesis using a b c d e by blast
qed

text \<open>
  Claim C1 as stated fails. A daily log that holds an entry and the line \<open>null\<close>: both
  lines parse, the comparator reads \<open>timestamp\<close> of \<open>null\<close>, and the read throws a
  \<open>TypeError\<close> instead of returning a list. And with a comparison that collates, as
  \<open>localeCompare\<close> does, two entries written at one and at ten o'clock without padding
  come back ten o'clock first, which by code units is the smaller string.
\<close>

theorem readAuditLogs_counterexample:
  "thrown (readAuditLogs toy_runtime None None null_line_world) = Some TypeError \<and>
   returned (readAuditLogs toy_runtime None None null_line_world) = None \<and>
   returned (readAuditLogs collating_runtime None None odd_hours_world) =
     Some [entry_at ''2024-01-02T10:00:00Z'', entry_at ''2024-01-02T1:00:00Z''] \<and>
   ''2024-01-02T10:00:00Z'' < ''2024-01-02T1:00:00Z''"
  by code_simp

section \<open>The recorder\<close>

lemma logAuditAction_returns:
  "\<exists>w'. logAuditAction rt adm act options w = Return () w'"
  by (simp add: logAuditAction_def appendToLog_def Date_toISOString_def split: outcome.splits)

lemma logAuditAction_console_last:
  "logAuditAction rt adm act options w = Return () w' \<Longrightarrow>
     last (console w') = ConsoleLog (audit_console_line adm act options)"
  by (auto simp: logAuditAction_def appendToLog_def Date_toISOString_def console_log_def
      split: outcome.splits if_splits)

lemma write_entry_append_fault:
  "append_fault w = Some e \<Longrightarrow> log_dir w \<noteq> None \<Longrightarrow> JSON_stringify rt entry = Inr js \<Longrightarrow>
     write_entry rt entry w = Throw e (w\<lparr>tick := Suc (tick w)\<rparr>)"
  by (auto simp: write_entry_def ensureLogDir_def getLogFilePath_def Date_toISOString_def
      fs_appendFileSync_def)

lemma write_entry_mkdir_fault:
  "mkdir_fault w = Some e \<Longrightarrow> log_dir w = None \<Longrightarrow> write_entry rt entry w = Throw e w"
  by (auto simp: write_entry_def ensureLogDir_def fs_mkdirSync_def)

text \<open>
  Claim C2. \<open>logAuditAction\<close> always returns. When persistence is on and the write throws
  (the directory cannot be made, the entry cannot be serialised, the append fails), the
  error is printed by \<open>console.error\<close>, followed by the usual line.
\<close>

theorem logAuditAction_never_throws:
  "\<exists>w'. logAuditAction rt adm act options w = Return () w' \<and>
     (\<forall>e. env w ''AUDIT_LOG_ENABLED'' = Some ''true'' \<and>
          thrown (write_entry rt (make_entry (clock w (tick w)) adm act options)
                    (w\<lparr>tick := Suc (tick w)\<rparr>)) = Some e
        \<longrightarrow> console w' = console w @
              [ConsoleError [S ''[Audit] Failed to write log:'', E e],
               ConsoleLog (audit_console_line adm act options)])"
proof (cases "write_entry rt (make_entry (clock w (tick w)) adm act options) (w\<lparr>tick := Suc (tick w)\<rparr>)")
  case (Throw e w1)
  then have "console w1 = console w"
    by (auto simp: write_entry_def ensureLogDir_def fs_mkdirSync_def getLogFilePath_def
      Date_toISOString_def fs_appendFileSync_def split: option.splits sum.splits outcome.splits)
  with Throw show ?thesis
    by (simp add: logAuditAction_def appendToLog_def Date_toISOString_def console_log_def console_error_def)
next
  case (Return u w1)
  then show ?thesis
    by (simp add: logAuditAction_def appendToLog_def Date_toISOString_def)
qed

theorem logAuditAction_never_throws_witness:
  "\<exists>w'. logAuditAction toy_runtime ''root'' ''ITEM_DELETE'' None full_disk_world = Return () w' \<and>
     console w' = [ConsoleError [S ''[Audit] Failed to write log:'', E (FsError ''ENOSPC'')],
                   ConsoleLog [S ''[Audit] root performed ITEM_DELETE'', S '''']]"
proof -
  have en: "env full_disk_world ''AUDIT_LOG_ENABLED'' = Some ''true''"
    by (simp add: full_disk_world_def quiet_world_def test_env_def)
  have th: "thrown (write_entry toy_runtime
               (make_entry (clock full_disk_world (tick full_disk_world)) ''root'' ''ITEM_DELETE'' None)
               (full_disk_world\<lparr>tick := Suc (tick full_disk_world)\<rparr>)) = Some (FsError ''ENOSPC'')"
    by (subst write_entry_append_fault[where e = "FsError ''ENOSPC''"])
       (simp_all add: full_disk_world_def quiet_world_def toy_runtime_def toy_stringify_def)
  from logAuditAction_never_throws[of toy_runtime "''root''" "''ITEM_DELETE''" None full_disk_world]
  obtain w' where r: "logAuditAction toy_runtime ''root'' ''ITEM_DELETE'' None full_disk_world = Return () w'"
    and c: "console w' = console full_disk_world @
              [ConsoleError [S ''[Audit] Failed to write log:'', E (FsError ''ENOSPC'')],
               ConsoleLog (audit_console_line ''root'' ''ITEM_DELETE'' None)]"
    using en th by blast
  have "console full_disk_world = []" by (simp add: full_disk_world_def quiet_world_def)
  with r c show ?thesis by (simp add: audit_console_line_def)
qed

text \<open>
  Claim C3. With \<open>AUDIT_LOG_ENABLED\<close> different from \<open>true\<close> the recorder returns, leaves
  the log directory as it was, and prints exactly the line that it prints last when
  persistence is on.
\<close>

theorem disabled_persistence_still_prints:
  assumes off: "env w ''AUDIT_LOG_ENABLED'' \<noteq> Some ''true''"
  shows "\<exists>w'. logAuditAction rt adm act options w = Return () w' \<and>
           log_dir w' = log_dir w \<and>
           console w' = console w @ [ConsoleLog (audit_console_line adm act options)] \<and>
           (\<exists>w2. logAuditAction rt adm act options
                    (w\<lparr>env := (env w)(''AUDIT_LOG_ENABLED'' \<mapsto> ''true'')\<rparr>) = Return () w2 \<and>
                  last (console w2) = ConsoleLog (audit_console_line adm act options))"
proof -
  have 1: "logAuditAction rt adm act options w =
             Return () (console_log (audit_console_line adm act options) (w\<lparr>tick := Suc (tick w)\<rparr>))"
    using off by (simp add: logAuditAction_def appendToLog_def Date_toISOString_def)
  obtain w2 where 2: "logAuditAction rt adm act options
                    (w\<lparr>env := (env w)(''AUDIT_LOG_ENABLED'' \<mapsto> ''true'')\<rparr>) = Return () w2"
    using logAuditAction_returns by blast
  show ?thesis using 1 2 logAuditAction_console_last[OF 2] by (simp add: console_log_def)
qed

theorem disabled_persistence_still_prints_witness:
  "env off_world ''AUDIT_LOG_ENABLED'' \<noteq> Some ''true'' \<and>
   (\<exists>w'. logAuditAction toy_runtime ''root'' ''ITEM_DELETE'' None off_world = Return () w' \<and>
      log_dir w' = Some [] \<and>
      console w' = [ConsoleLog [S ''[Audit] root performed ITEM_DELETE'', S '''']])"
proof -
  have off: "env off_world ''AUDIT_LOG_ENABLED'' \<noteq> Some ''true''"
    by (simp add: off_world_def quiet_world_def off_env_def)
  from disabled_persistence_still_prints[OF off, of toy_runtime "''root''" "''ITEM_DELETE''" None]
  show ?thesis using off
    by (auto simp: off_world_def quiet_world_def audit_console_line_def)
qed

section \<open>The reader on broken and unreadable files\<close>






lemma read_files_throw:
  assumes "filter (in_range sd ed) fs = pre @ f # post"
      and "\<forall>g\<in>set pre. read_fault w g = None"
      and "read_fault w f = Some e"
      and "\<forall>g\<in>set fs. g \<in> fst ` set (dir_files w)"
  shows "\<exists>w'. read_files rt sd ed fs (acc, w) = Throw e w'"
  using assms
proof (induction fs arbitrary: pre acc w)
  case Nil
  then show ?case by simp
next
  case (Cons g fs)
  show ?case
  proof (cases "in_range sd ed g")
    case False
    then have "read_files rt sd ed (g # fs) (acc, w) = read_files rt sd ed fs (acc, w)"
      by (auto simp: range_conds split: option.splits)
    moreover from False Cons.prems(1) have "filter (in_range sd ed) fs = pre @ f # post" by simp
    ultimately show ?thesis using Cons.IH[of pre w acc] Cons.prems by simp
  next
    case True
    then obtain d where d: "file_match g = Some d" "\<not> before_start sd d" "\<not> after_end ed d"
      using range_conds[of g _ sd ed] by (auto simp: in_range_def split: option.splits)
    from True Cons.prems(1) have fl: "g # filter (in_range sd ed) fs = pre @ f # post" by simp
    show ?thesis
    proof (cases pre)
      case Nil
      with fl have "g = f" by simp
      then have "fs_readFileSync g w = Throw e w"
        using Cons.prems(3) by (simp add: fs_readFileSync_def)
      then show ?thesis using d by simp
    next
      case (Cons p pre')
      with fl have gp: "g = p" and rest: "filter (in_range sd ed) fs = pre' @ f # post" by simp_all
      have nf: "read_fault w g = None" using Cons.prems(2) Cons gp by simp
      have "g \<in> fst ` set (dir_files w)" using Cons.prems(4) by simp
      then obtain c0 where c0: "map_of (dir_files w) g = Some c0"
        by (metis map_of_eq_None_iff not_Some_eq)
      then have rd: "fs_readFileSync g w = Return c0 w"
        using nf by (auto simp: fs_readFileSync_def dir_files_def split: option.splits)
      obtain es w1 where pl: "parse_lines rt (js_lines c0) (acc, w) = (es, w1)"
        by (cases "parse_lines rt (js_lines c0) (acc, w)")
      have w1d: "log_dir w1 = log_dir w" using parse_lines_snd_dir[of rt "js_lines c0" acc w] pl by simp
      have w1f: "read_fault w1 = read_fault w" using parse_lines_snd_fault[of rt "js_lines c0" acc w] pl by simp
      have step: "read_files rt sd ed (g # fs) (acc, w) = read_files rt sd ed fs (es, w1)"
        using d rd pl by simp
      have "\<exists>w'. read_files rt sd ed fs (es, w1) = Throw e w'"
        by (rule Cons.IH[OF rest]) (use Cons.prems Cons w1d w1f in \<open>auto simp: dir_files_def\<close>)
      with step show ?thesis by simp
    qed
  qed
qed

text \<open>
  Claim C6, as amended. \<open>readFileSync\<close> is not inside any \<open>try\<close>: when a selected file
  cannot be read, and the selected files before it can, the error leaves \<open>readAuditLogs\<close>
  and no entries are returned.
\<close>

theorem unreadable_file_aborts_read:
  assumes "log_dir w \<noteq> None" "readdir_fault w = None"
      and "selected_files sd ed w = pre @ f # post"
      and "\<forall>g\<in>set pre. read_fault w g = None"
      and "read_fault w f = Some e"
  shows "\<exists>w'. readAuditLogs rt sd ed w = Throw e w'"
proof -
  from assms(1) obtain fs where fs: "log_dir w = Some fs" by auto
  then have df: "dir_files w = fs" by (simp add: dir_files_def)
  have "\<exists>w'. read_files rt sd ed (audit_file_names (map fst fs)) ([], w) = Throw e w'"
    by (rule read_files_throw[where pre = pre and f = f and post = post])
       (use assms df in \<open>auto simp: selected_files_def audit_file_names_def\<close>)
  then show ?thesis
    using fs assms(2) by (auto simp: readAuditLogs_def ensureLogDir_def fs_readdirSync_def)
qed

text \<open>
  Claim C6 as stated fails: with the first of three daily logs unreadable and the other two
  readable, the read throws instead of returning the entries of the other two.
\<close>

theorem unreadable_file_counterexample:
  "read_fault unreadable_world ''audit-2024-01-01.json'' = Some (FsError ''EACCES'') \<and>
   read_fault unreadable_world ''audit-2024-01-02.json'' = None \<and>
   read_fault unreadable_world ''audit-2024-01-03.json'' = None \<and>
   parsed_entries toy_runtime (file_content unreadable_world ''audit-2024-01-02.json'') =
     [entry_at ''2024-01-02T09:00:00.000Z'', entry_at ''2024-01-02T11:30:00.000Z''] \<and>
   thrown (readAuditLogs toy_runtime None None unreadable_world) = Some (FsError ''EACCES'')"
  by code_simp

lemma uw_sel: "selected_files None None unreadable_world = [] @ ''audit-2024-01-01.json'' # [''audit-2024-01-02.json'', ''audit-2024-01-03.json'']"
  by code_simp

theorem unreadable_file_aborts_read_witness:
  "\<exists>w'. readAuditLogs toy_runtime None None unreadable_world = Throw (FsError ''EACCES'') w'"
proof -
  have 1: "log_dir unreadable_world \<noteq> None" "readdir_fault unreadable_world = None"
    by (simp_all add: unreadable_world_def three_days_world_def quiet_world_def)
  have 2: "\<forall>g\<in>set []. read_fault unreadable_world g = None" by simp
  have 3: "read_fault unreadable_world ''audit-2024-01-01.json'' = Some (FsError ''EACCES'')"
    by (simp add: unreadable_world_def first_unreadable_def)
  show ?thesis by (rule unreadable_file_aborts_read[OF 1 uw_sel 2 3])
qed

section \<open>What the recorder leaves behind\<close>

lemma map_of_append_file:
  "map_of (append_file fs p l) p = Some ((case map_of fs p of None \<Rightarrow> [] | Some c \<Rightarrow> c) @ l)"
proof (cases "p \<in> set (map fst fs)")
  case True
  have "p \<in> set (map fst gs) \<Longrightarrow>
        map_of (map (\<lambda>(n, c). if n = p then (n, c @ l) else (n, c)) gs) p
          = Some ((case map_of gs p of None \<Rightarrow> [] | Some c \<Rightarrow> c) @ l)" for gs
    by (induction gs) auto
  with True show ?thesis by (simp add: append_file_def)
next
  case False
  then have "map_of fs p = None" by (simp add: map_of_eq_None_iff)
  with False show ?thesis by (simp add: append_file_def map_add_def)
qed

lemma logAuditAction_writes:
  assumes "env w ''AUDIT_LOG_ENABLED'' = Some ''true''" "log_dir w = Some fs" "append_fault w = None"
      and "JSON_stringify rt (make_entry (clock w (tick w)) adm act options) = Inr js"
  shows "\<exists>w1. logAuditAction rt adm act options w = Return () w1 \<and>
           console w1 = console w @ [ConsoleLog (audit_console_line adm act options)] \<and>
           Option.bind (log_dir w1)
             (\<lambda>fs'. map_of fs' (''audit-'' @ takeWhile (\<lambda>c. c \<noteq> CHR ''T'') (clock w (Suc (tick w))) @ ''.json''))
             = Some ((case map_of fs (''audit-'' @ takeWhile (\<lambda>c. c \<noteq> CHR ''T'') (clock w (Suc (tick w))) @ ''.json'') of
                        None \<Rightarrow> [] | Some c \<Rightarrow> c) @ js @ [CHR 0x0A])"
  using assms
  by (simp add: logAuditAction_def appendToLog_def write_entry_def ensureLogDir_def
      getLogFilePath_def Date_toISOString_def fs_appendFileSync_def console_log_def
      map_of_append_file)

lemma res_json_no_hooks:
  "send_hooks res = [] \<Longrightarrow> res_json rt req v res w = Return (res\<lparr>sent := Some (Json v)\<rparr>) w"
  by (simp add: res_json_def res_send_def)

lemma res_send_no_hooks:
  "send_hooks res = [] \<Longrightarrow> res_send rt req b res w = Return (res\<lparr>sent := Some (wire b)\<rparr>) w"
  by (cases b) (simp_all add: res_send_def)

section \<open>The interceptor\<close>

text \<open>
  Claim C4. A response wrapped by \<open>auditMiddleware actionPrefix\<close>. When the method is not
  one of POST, PUT, PATCH, DELETE, or the status code at the moment of sending is 400 or
  more, the response is sent and nothing else happens. Otherwise the wrapper calls the
  recorder: the console line names the user and \<open>actionPrefix_METHOD\<close>, and with working
  persistence the daily file grows by the line of the entry with that action, the user name
  attached to the request (\<open>unknown\<close> when there is none, or when it is empty), and as
  metadata the path, the route parameters and the status code. Then the response is sent;
  an object handed to \<open>res.send\<close> comes back through the wrapper as a string.
\<close>

theorem interceptor_records_successful_mutations:
  assumes hooks: "send_hooks res = [AuditHook actionPrefix]"
  shows "(\<not> (req_method req \<in> {''POST'', ''PUT'', ''PATCH'', ''DELETE''} \<and> statusCode res < 400) \<longrightarrow>
            res_send rt req b res w = Return (res\<lparr>sent := Some (wire b)\<rparr>) w) \<and>
         (req_method req \<in> {''POST'', ''PUT'', ''PATCH'', ''DELETE''} \<and> statusCode res < 400 \<longrightarrow>
            (\<exists>w1. audit_hook rt actionPrefix req res w = Return () w1 \<and>
                  last (console w1) =
                    ConsoleLog [S (''[Audit] '' @ (case req_admin req of
                        None \<Rightarrow> ''unknown''
                      | Some a \<Rightarrow> if username a = [] then ''unknown'' else username a) @ '' performed '' @ actionPrefix @ ''_'' @ req_method req),
                                S []] \<and>
                  (\<forall>fs js.
                     env w ''AUDIT_LOG_ENABLED'' = Some ''true'' \<and> log_dir w = Some fs \<and>
                     append_fault w = None \<and>
                     JSON_stringify rt
                       \<lparr> timestamp = clock w (tick w),
                         action = actionPrefix @ ''_'' @ req_method req,
                         admin = (case req_admin req of
                        None \<Rightarrow> ''unknown''
                      | Some a \<Rightarrow> if username a = [] then ''unknown'' else username a),
                         target = None,
                         changes = None,
                         metadata = Some
                           [(''path'', JStr (req_path req)),
                            (''params'', JObj (map (\<lambda>(k, v). (k, JStr v)) (req_params req))),
                            (''statusCode'', JNum (statusCode res))],
                         ip = or_else (req_ip req) (or_else (req_remoteAddress req) ''unknown''),
                         userAgent = map_of (req_headers req) ''user-agent'' \<rparr> = Inr js \<longrightarrow>
                     console w1 = console w @
                       [ConsoleLog [S (''[Audit] '' @ (case req_admin req of
                        None \<Rightarrow> ''unknown''
                      | Some a \<Rightarrow> if username a = [] then ''unknown'' else username a) @ '' performed '' @ actionPrefix @ ''_'' @ req_method req),
                                    S []]] \<and>
                     Option.bind (log_dir w1)
                       (\<lambda>fs'. map_of fs' (''audit-'' @ takeWhile (\<lambda>c. c \<noteq> CHR ''T'') (clock w (Suc (tick w))) @ ''.json''))
                       = Some ((case map_of fs (''audit-'' @ takeWhile (\<lambda>c. c \<noteq> CHR ''T'') (clock w (Suc (tick w))) @ ''.json'') of
                                  None \<Rightarrow> [] | Some c \<Rightarrow> c) @ js @ [CHR 0x0A])) \<and>
                  res_send rt req b res w =
                    (case b of
                       Object kvs \<Rightarrow> res_send rt req (Json (JObj kvs)) res w1
                     | _ \<Rightarrow> Return (res\<lparr>sent := Some b\<rparr>) w1)))"
proof (intro conjI impI)
  assume n: "\<not> (req_method req \<in> {''POST'', ''PUT'', ''PATCH'', ''DELETE''} \<and> statusCode res < 400)"
  then have "audit_hook rt actionPrefix req res w = Return () w" for w
    by (auto simp: audit_hook_def mutating_methods_def)
  then show "res_send rt req b res w = Return (res\<lparr>sent := Some (wire b)\<rparr>) w"
    using hooks by (cases b) (simp_all add: res_send_def)
next
  assume c: "req_method req \<in> {''POST'', ''PUT'', ''PATCH'', ''DELETE''} \<and> statusCode res < 400"
  let ?act = "actionPrefix @ ''_'' @ req_method req"
  let ?opts = "Some (interceptor_options req res)"
  let ?adm = "(case req_admin req of
                        None \<Rightarrow> ''unknown''
                      | Some a \<Rightarrow> if username a = [] then ''unknown'' else username a)"
  have adm: "admin_or_unknown req = ?adm"
    by (simp add: admin_or_unknown_def or_else_def split: option.splits)
  have hk: "audit_hook rt actionPrefix req res w = logAuditAction rt ?adm ?act ?opts w" for w
    using c adm by (auto simp: audit_hook_def mutating_methods_def)
  obtain w1 where r: "logAuditAction rt ?adm ?act ?opts w = Return () w1"
    using logAuditAction_returns by blast
  have line: "audit_console_line ?adm ?act ?opts =
                [S (''[Audit] '' @ ?adm @ '' performed '' @ ?act), S []]"
    by (simp add: audit_console_line_def interceptor_options_def)
  have entry: "make_entry (clock w (tick w)) ?adm ?act ?opts =
                 \<lparr> timestamp = clock w (tick w), action = ?act, admin = ?adm, target = None,
                   changes = None,
                   metadata = Some
                     [(''path'', JStr (req_path req)),
                      (''params'', JObj (map (\<lambda>(k, v). (k, JStr v)) (req_params req))),
                      (''statusCode'', JNum (statusCode res))],
                   ip = or_else (req_ip req) (or_else (req_remoteAddress req) ''unknown''),
                   userAgent = map_of (req_headers req) ''user-agent'' \<rparr>"
    by (simp add: make_entry_def interceptor_options_def or_else_def split: option.splits)
  have lastline: "last (console w1) = ConsoleLog [S (''[Audit] '' @ ?adm @ '' performed '' @ ?act), S []]"
    using logAuditAction_console_last[OF r] line by simp
  have written: "console w1 = console w @ [ConsoleLog [S (''[Audit] '' @ ?adm @ '' performed '' @ ?act), S []]] \<and>
              Option.bind (log_dir w1)
                (\<lambda>fs'. map_of fs' (''audit-'' @ takeWhile (\<lambda>c. c \<noteq> CHR ''T'') (clock w (Suc (tick w))) @ ''.json''))
                = Some ((case map_of fs (''audit-'' @ takeWhile (\<lambda>c. c \<noteq> CHR ''T'') (clock w (Suc (tick w))) @ ''.json'') of
                           None \<Rightarrow> [] | Some c \<Rightarrow> c) @ js @ [CHR 0x0A])"
    if "env w ''AUDIT_LOG_ENABLED'' = Some ''true''" "log_dir w = Some fs" "append_fault w = None"
       "JSON_stringify rt (make_entry (clock w (tick w)) ?adm ?act ?opts) = Inr js" for fs js
    using logAuditAction_writes[OF that] r line by auto
  have send: "res_send rt req b res w =
                (case b of
                   Object kvs \<Rightarrow> res_send rt req (Json (JObj kvs)) res w1
                 | _ \<Rightarrow> Return (res\<lparr>sent := Some b\<rparr>) w1)"
    using hooks hk r by (cases b) (simp_all add: res_send_def split: outcome.splits)
  show "\<exists>w1. audit_hook rt actionPrefix req res w = Return () w1 \<and>
                  last (console w1) =
                    ConsoleLog [S (''[Audit] '' @ (case req_admin req of
                        None \<Rightarrow> ''unknown''
                      | Some a \<Rightarrow> if username a = [] then ''unknown'' else username a) @ '' performed '' @ actionPrefix @ ''_'' @ req_method req),
                                S []] \<and>
                  (\<forall>fs js.
                     env w ''AUDIT_LOG_ENABLED'' = Some ''true'' \<and> log_dir w = Some fs \<and>
                     append_fault w = None \<and>
                     JSON_stringify rt
                       \<lparr> timestamp = clock w (tick w),
                         action = actionPrefix @ ''_'' @ req_method req,
                         admin = (case req_admin req of
                        None \<Rightarrow> ''unknown''
                      | Some a \<Rightarrow> if username a = [] then ''unknown'' else username a),
                         target = None,
                         changes = None,
                         metadata = Some
                           [(''path'', JStr (req_path req)),
                            (''params'', JObj (map (\<lambda>(k, v). (k, JStr v)) (req_params req))),
                            (''statusCode'', JNum (statusCode res))],
                         ip = or_else (req_ip req) (or_else (req_remoteAddress req) ''unknown''),
                         userAgent = map_of (req_headers req) ''user-agent'' \<rparr> = Inr js \<longrightarrow>
                     console w1 = console w @
                       [ConsoleLog [S (''[Audit] '' @ (case req_admin req of
                        None \<Rightarrow> ''unknown''
                      | Some a \<Rightarrow> if username a = [] then ''unknown'' else username a) @ '' performed '' @ actionPrefix @ ''_'' @ req_method req),
                                    S []]] \<and>
                     Option.bind (log_dir w1)
                       (\<lambda>fs'. map_of fs' (''audit-'' @ takeWhile (\<lambda>c. c \<noteq> CHR ''T'') (clock w (Suc (tick w))) @ ''.json''))
                       = Some ((case map_of fs (''audit-'' @ takeWhile (\<lambda>c. c \<noteq> CHR ''T'') (clock w (Suc (tick w))) @ ''.json'') of
                                  None \<Rightarrow> [] | Some c \<Rightarrow> c) @ js @ [CHR 0x0A])) \<and>
                  res_send rt req b res w =
                    (case b of
                       Object kvs \<Rightarrow> res_send rt req (Json (JObj kvs)) res w1
                     | _ \<Rightarrow> Return (res\<lparr>sent := Some b\<rparr>) w1)"
    using hk r lastline written send entry by (intro exI[of _ w1]) auto
qed

lemma post_cond:
  "req_method post_request \<in> {''POST'', ''PUT'', ''PATCH'', ''DELETE''} \<and> statusCode created_response < 400"
  by (simp add: post_request_def created_response_def auditMiddleware_def res_status_def new_response_def)

lemma post_line:
  "JSON_stringify toy_runtime
     \<lparr> timestamp = clock quiet_world (tick quiet_world),
       action = ''CHARACTER'' @ ''_'' @ req_method post_request,
       admin = (case req_admin post_request of
                        None \<Rightarrow> ''unknown''
                      | Some a \<Rightarrow> if username a = [] then ''unknown'' else username a),
       target = None,
       changes = None,
       metadata = Some
         [(''path'', JStr (req_path post_request)),
          (''params'', JObj (map (\<lambda>(k, v). (k, JStr v)) (req_params post_request))),
          (''statusCode'', JNum (statusCode created_response))],
       ip = or_else (req_ip post_request) (or_else (req_remoteAddress post_request) ''unknown''),
       userAgent = map_of (req_headers post_request) ''user-agent'' \<rparr>
   = Inr (''{'' @ quoted ''timestamp'' @ '':'' @ quoted ''2024-01-02T10:00:00.000Z'' @ '','' @
          quoted ''action'' @ '':'' @ quoted ''CHARACTER_POST'' @ '','' @
          quoted ''admin'' @ '':'' @ quoted ''root'' @ ''}'')"
  by (simp add: toy_runtime_def toy_stringify_def quiet_world_def fixed_clock_def post_request_def
      root_payload_def)

lemma post_twice:
  "console (world_after (res_send toy_runtime post_request (Object []) created_response quiet_world)) =
     [ConsoleLog [S ''[Audit] root performed CHARACTER_POST'', S []],
      ConsoleLog [S ''[Audit] root performed CHARACTER_POST'', S []]] \<and>
   returned (res_send toy_runtime post_request (Object []) created_response quiet_world) =
     Some (created_response\<lparr>sent := Some (Json (JObj []))\<rparr>)"
  by code_simp

lemma get_cond:
  "\<not> (req_method (post_request\<lparr>req_method := ''GET''\<rparr>) \<in> {''POST'', ''PUT'', ''PATCH'', ''DELETE''} \<and>
      statusCode created_response < 400)"
  by simp

lemma fail_cond:
  "\<not> (req_method post_request \<in> {''POST'', ''PUT'', ''PATCH'', ''DELETE''} \<and>
      statusCode (created_response\<lparr>statusCode := 404\<rparr>) < 400)"
  by simp

theorem interceptor_records_successful_mutations_witness:
  "(\<exists>w1. res_send toy_runtime post_request (Json (JObj [])) created_response quiet_world
           = Return (created_response\<lparr>sent := Some (Json (JObj []))\<rparr>) w1 \<and>
         console w1 = [ConsoleLog [S ''[Audit] root performed CHARACTER_POST'', S []]] \<and>
         Option.bind (log_dir w1) (\<lambda>fs. map_of fs ''audit-2024-01-02.json'')
           = Some (''{'' @ quoted ''timestamp'' @ '':'' @ quoted ''2024-01-02T10:00:00.000Z'' @ '','' @
                   quoted ''action'' @ '':'' @ quoted ''CHARACTER_POST'' @ '','' @
                   quoted ''admin'' @ '':'' @ quoted ''root'' @ ''}'' @ [CHR 0x0A])) \<and>
   res_send toy_runtime (post_request\<lparr>req_method := ''GET''\<rparr>) (Object []) created_response quiet_world
     = Return (created_response\<lparr>sent := Some (Json (JObj []))\<rparr>) quiet_world \<and>
   res_send toy_runtime post_request (Text ''Not found'') (created_response\<lparr>statusCode := 404\<rparr>) quiet_world
     = Return (created_response\<lparr>statusCode := 404, sent := Some (Text ''Not found'')\<rparr>) quiet_world \<and>
   console (world_after (res_send toy_runtime post_request (Object []) created_response quiet_world)) =
     [ConsoleLog [S ''[Audit] root performed CHARACTER_POST'', S []],
      ConsoleLog [S ''[Audit] root performed CHARACTER_POST'', S []]] \<and>
   returned (res_send toy_runtime post_request (Object []) created_response quiet_world) =
     Some (created_response\<lparr>sent := Some (Json (JObj []))\<rparr>)"
proof -
  have h: "send_hooks created_response = [AuditHook ''CHARACTER'']"
    by (simp add: created_response_def auditMiddleware_def res_status_def new_response_def)
  have pre: "env quiet_world ''AUDIT_LOG_ENABLED'' = Some ''true''" "log_dir quiet_world = Some []"
    "append_fault quiet_world = None"
    by (simp_all add: quiet_world_def test_env_def)
  note inst = interceptor_records_successful_mutations[OF h, where req = post_request
      and rt = toy_runtime and b = "Json (JObj [])" and w = quiet_world,
      THEN conjunct2, rule_format, OF post_cond]
  then obtain w1 where
    w1: "(\<forall>fs js.
            env quiet_world ''AUDIT_LOG_ENABLED'' = Some ''true'' \<and> log_dir quiet_world = Some fs \<and>
            append_fault quiet_world = None \<and>
            JSON_stringify toy_runtime
              \<lparr> timestamp = clock quiet_world (tick quiet_world),
                action = ''CHARACTER'' @ ''_'' @ req_method post_request,
                admin = (case req_admin post_request of
                        None \<Rightarrow> ''unknown''
                      | Some a \<Rightarrow> if username a = [] then ''unknown'' else username a),
                target = None,
                changes = None,
                metadata = Some
                  [(''path'', JStr (req_path post_request)),
                   (''params'', JObj (map (\<lambda>(k, v). (k, JStr v)) (req_params post_request))),
                   (''statusCode'', JNum (statusCode created_response))],
                ip = or_else (req_ip post_request) (or_else (req_remoteAddress post_request) ''unknown''),
                userAgent = map_of (req_headers post_request) ''user-agent'' \<rparr> = Inr js \<longrightarrow>
            console w1 = console quiet_world @
              [ConsoleLog [S (''[Audit] '' @ (case req_admin post_request of
                        None \<Rightarrow> ''unknown''
                      | Some a \<Rightarrow> if username a = [] then ''unknown'' else username a)
                    @ '' performed '' @ ''CHARACTER'' @ ''_'' @ req_method post_request), S []]] \<and>
            Option.bind (log_dir w1)
              (\<lambda>fs'. map_of fs' (''audit-'' @ takeWhile (\<lambda>c. c \<noteq> CHR ''T'')
                                   (clock quiet_world (Suc (tick quiet_world))) @ ''.json''))
              = Some ((case map_of fs (''audit-'' @ takeWhile (\<lambda>c. c \<noteq> CHR ''T'')
                                   (clock quiet_world (Suc (tick quiet_world))) @ ''.json'') of
                         None \<Rightarrow> [] | Some c \<Rightarrow> c) @ js @ [CHR 0x0A]))"
    and s: "res_send toy_runtime post_request (Json (JObj [])) created_response quiet_world =
              (case Json (JObj []) of
                 Object kvs \<Rightarrow> res_send toy_runtime post_request (Json (JObj kvs)) created_response w1
               | _ \<Rightarrow> Return (created_response\<lparr>sent := Some (Json (JObj []))\<rparr>) w1)"
    by blast
  from w1[rule_format, OF conjI[OF pre(1) conjI[OF pre(2) conjI[OF pre(3) post_line]]]]
  have "console w1 = [ConsoleLog [S ''[Audit] root performed CHARACTER_POST'', S []]] \<and>
        Option.bind (log_dir w1) (\<lambda>fs. map_of fs ''audit-2024-01-02.json'')
           = Some (''{'' @ quoted ''timestamp'' @ '':'' @ quoted ''2024-01-02T10:00:00.000Z'' @ '','' @
                   quoted ''action'' @ '':'' @ quoted ''CHARACTER_POST'' @ '','' @
                   quoted ''admin'' @ '':'' @ quoted ''root'' @ ''}'' @ [CHR 0x0A])"
    by (simp add: quiet_world_def fixed_clock_def post_request_def root_payload_def)
  with s have recorded: "(\<exists>w1. res_send toy_runtime post_request (Json (JObj [])) created_response quiet_world
           = Return (created_response\<lparr>sent := Some (Json (JObj []))\<rparr>) w1 \<and>
         console w1 = [ConsoleLog [S ''[Audit] root performed CHARACTER_POST'', S []]] \<and>
         Option.bind (log_dir w1) (\<lambda>fs. map_of fs ''audit-2024-01-02.json'')
           = Some (''{'' @ quoted ''timestamp'' @ '':'' @ quoted ''2024-01-02T10:00:00.000Z'' @ '','' @
                   quoted ''action'' @ '':'' @ quoted ''CHARACTER_POST'' @ '','' @
                   quoted ''admin'' @ '':'' @ quoted ''root'' @ ''}'' @ [CHR 0x0A]))"
    by auto
  have silent: "res_send toy_runtime (post_request\<lparr>req_method := ''GET''\<rparr>) (Object []) created_response quiet_world
     = Return (created_response\<lparr>sent := Some (Json (JObj []))\<rparr>) quiet_world \<and>
   res_send toy_runtime post_request (Text ''Not found'') (created_response\<lparr>statusCode := 404\<rparr>) quiet_world
     = Return (created_response\<lparr>statusCode := 404, sent := Some (Text ''Not found'')\<rparr>) quiet_world"
    using interceptor_records_successful_mutations[OF h, where req = "post_request\<lparr>req_method := ''GET''\<rparr>"
        and rt = toy_runtime and b = "Object []" and w = quiet_world, THEN conjunct1, rule_format, OF get_cond]
      interceptor_records_successful_mutations[where res = "created_response\<lparr>statusCode := 404\<rparr>"
        and actionPrefix = "''CHARACTER''" and req = post_request
        and rt = toy_runtime and b = "Text ''Not found''" and w = quiet_world, THEN conjunct1, rule_format, OF _ fail_cond]
    by (simp add: h)
  show ?thesis using recorded silent post_twice by blast
qed

section \<open>Login and the Auth Gate\<close>

lemma authMiddleware_world:
  "send_hooks res = [] \<Longrightarrow> world_of (authMiddleware rt req res w) = w"
  by (auto simp: authMiddleware_def Let_def finish_def res_json_no_hooks res_status_def verifyToken_def
      split: sum.splits option.splits)

lemma validate_keeps:
  "validateAdminCredentials u p w = (ok, w0) \<Longrightarrow>
     env w0 = env w \<and> clock w0 = clock w \<and> tick w0 = tick w \<and> log_dir w0 = log_dir w \<and>
     append_fault w0 = append_fault w \<and> (ok \<longrightarrow> w0 = w \<and> u = JStr (str_of u))"
  by (auto simp: validateAdminCredentials_def console_error_def split: if_splits)

text \<open>
  Claim C9, as amended. \<open>POST /auth/login\<close> with both credentials present, on a response
  that no interceptor wraps. When the credentials are not valid, the handler records
  \<open>LOGIN_FAILED\<close> under \<open>anonymous\<close> and answers 401. When they are valid and the token is
  issued, it records \<open>LOGIN_SUCCESS\<close> under the user name and answers with the token and
  the user object. When they are valid and issuing the token throws (no \<open>JWT_SECRET\<close>), it
  answers 500 and records nothing. The Auth Gate itself leaves the console and the log
  directory alone.
\<close>

theorem login_handler_audits:
  assumes fresh: "send_hooks res = []"
      and present: "truthy (get_prop (req_body req) ''username'')"
                   "truthy (get_prop (req_body req) ''password'')"
  shows "(\<not> fst (validateAdminCredentials (get_prop (req_body req) ''username'')
                  (get_prop (req_body req) ''password'') w) \<longrightarrow>
            (\<exists>w1. login_handler rt req res w =
                     Return (res\<lparr>statusCode := 401,
                                 sent := Some (Json (JObj [(''error'', JStr ''Invalid credentials'')]))\<rparr>) w1 \<and>
                   last (console w1) = ConsoleLog [S ''[Audit] anonymous performed LOGIN_FAILED'', S []] \<and>
                   (\<forall>fs js.
                      env w ''AUDIT_LOG_ENABLED'' = Some ''true'' \<and> log_dir w = Some fs \<and>
                      append_fault w = None \<and>
                      JSON_stringify rt
                        \<lparr> timestamp = clock w (tick w), action = ''LOGIN_FAILED'',
                          admin = ''anonymous'', target = None, changes = None,
                          metadata = Some [(''username'', get_prop (req_body req) ''username'')],
                          ip = or_else (req_ip req) ''unknown'', userAgent = None \<rparr> = Inr js \<longrightarrow>
                      Option.bind (log_dir w1)
                        (\<lambda>fs'. map_of fs' (''audit-'' @ takeWhile (\<lambda>c. c \<noteq> CHR ''T'') (clock w (Suc (tick w))) @ ''.json''))
                        = Some ((case map_of fs (''audit-'' @ takeWhile (\<lambda>c. c \<noteq> CHR ''T'') (clock w (Suc (tick w))) @ ''.json'') of
                                   None \<Rightarrow> [] | Some c \<Rightarrow> c) @ js @ [CHR 0x0A])))) \<and>
         (fst (validateAdminCredentials (get_prop (req_body req) ''username'')
                 (get_prop (req_body req) ''password'') w) \<and>
          generateToken rt (str_of (get_prop (req_body req) ''username'')) w = Inr token \<longrightarrow>
            get_prop (req_body req) ''username'' = JStr (str_of (get_prop (req_body req) ''username'')) \<and>
            (\<exists>w1. login_handler rt req res w =
                     Return (res\<lparr>res_cookies := res_cookies res @ [(''adminToken'', token)],
                                 sent := Some (Json (JObj
                                   [(''success'', JBool True), (''token'', JStr token),
                                    (''user'', JObj [(''username'', get_prop (req_body req) ''username''),
                                                     (''role'', JStr ''admin'')])]))\<rparr>) w1 \<and>
                   last (console w1) =
                     ConsoleLog [S (''[Audit] '' @ str_of (get_prop (req_body req) ''username'')
                                      @ '' performed LOGIN_SUCCESS''), S []] \<and>
                   (\<forall>fs js.
                      env w ''AUDIT_LOG_ENABLED'' = Some ''true'' \<and> log_dir w = Some fs \<and>
                      append_fault w = None \<and>
                      JSON_stringify rt
                        \<lparr> timestamp = clock w (tick w), action = ''LOGIN_SUCCESS'',
                          admin = str_of (get_prop (req_body req) ''username''),
                          target = None, changes = None, metadata = None,
                          ip = or_else (req_ip req) ''unknown'', userAgent = None \<rparr> = Inr js \<longrightarrow>
                      Option.bind (log_dir w1)
                        (\<lambda>fs'. map_of fs' (''audit-'' @ takeWhile (\<lambda>c. c \<noteq> CHR ''T'') (clock w (Suc (tick w))) @ ''.json''))
                        = Some ((case map_of fs (''audit-'' @ takeWhile (\<lambda>c. c \<noteq> CHR ''T'') (clock w (Suc (tick w))) @ ''.json'') of
                                   None \<Rightarrow> [] | Some c \<Rightarrow> c) @ js @ [CHR 0x0A])))) \<and>
         (fst (validateAdminCredentials (get_prop (req_body req) ''username'')
                 (get_prop (req_body req) ''password'') w) \<and>
          generateToken rt (str_of (get_prop (req_body req) ''username'')) w = Inl e \<longrightarrow>
            login_handler rt req res w =
              Return (res\<lparr>statusCode := 500,
                          sent := Some (Json (JObj [(''error'', JStr ''Internal server error'')]))\<rparr>)
                     (w\<lparr>console := console w @ [ConsoleError [S ''[Auth] Login error:'', E e]]\<rparr>)) \<and>
         world_of (authMiddleware rt req res w) = w"
proof -
  let ?u = "get_prop (req_body req) ''username''"
  let ?p = "get_prop (req_body req) ''password''"
  let ?path = "''audit-'' @ takeWhile (\<lambda>c. c \<noteq> CHR ''T'') (clock w (Suc (tick w))) @ ''.json''"
  obtain ok w0 where v: "validateAdminCredentials ?u ?p w = (ok, w0)"
    by (cases "validateAdminCredentials ?u ?p w")
  note k = validate_keeps[OF v]
  let ?fo = "Some (login_options req (Some [(''username'', ?u)]))"
  let ?so = "Some (login_options req None)"
  have fe: "make_entry (clock w (tick w)) ''anonymous'' ''LOGIN_FAILED'' ?fo =
              \<lparr> timestamp = clock w (tick w), action = ''LOGIN_FAILED'',
                admin = ''anonymous'', target = None, changes = None,
                metadata = Some [(''username'', ?u)],
                ip = or_else (req_ip req) ''unknown'', userAgent = None \<rparr>"
    by (simp add: make_entry_def login_options_def or_else_def split: option.splits)
  have se: "make_entry (clock w (tick w)) (str_of ?u) ''LOGIN_SUCCESS'' ?so =
              \<lparr> timestamp = clock w (tick w), action = ''LOGIN_SUCCESS'',
                admin = str_of ?u, target = None, changes = None, metadata = None,
                ip = or_else (req_ip req) ''unknown'', userAgent = None \<rparr>"
    by (simp add: make_entry_def login_options_def or_else_def split: option.splits)
  have fl: "audit_console_line ''anonymous'' ''LOGIN_FAILED'' ?fo =
              [S ''[Audit] anonymous performed LOGIN_FAILED'', S []]"
    by (simp add: audit_console_line_def login_options_def)
  have sl: "audit_console_line (str_of ?u) ''LOGIN_SUCCESS'' ?so =
              [S (''[Audit] '' @ str_of ?u @ '' performed LOGIN_SUCCESS''), S []]"
    by (simp add: audit_console_line_def login_options_def)
  have failed: "\<exists>w1. login_handler rt req res w =
                     Return (res\<lparr>statusCode := 401,
                                 sent := Some (Json (JObj [(''error'', JStr ''Invalid credentials'')]))\<rparr>) w1 \<and>
                   last (console w1) = ConsoleLog [S ''[Audit] anonymous performed LOGIN_FAILED'', S []] \<and>
                   (\<forall>fs js.
                      env w ''AUDIT_LOG_ENABLED'' = Some ''true'' \<and> log_dir w = Some fs \<and>
                      append_fault w = None \<and>
                      JSON_stringify rt
                        \<lparr> timestamp = clock w (tick w), action = ''LOGIN_FAILED'',
                          admin = ''anonymous'', target = None, changes = None,
                          metadata = Some [(''username'', ?u)],
                          ip = or_else (req_ip req) ''unknown'', userAgent = None \<rparr> = Inr js \<longrightarrow>
                      Option.bind (log_dir w1) (\<lambda>fs'. map_of fs' ?path)
                        = Some ((case map_of fs ?path of None \<Rightarrow> [] | Some c \<Rightarrow> c) @ js @ [CHR 0x0A]))"
    if nok: "\<not> ok"
  proof -
    obtain wb where b: "logAuditAction rt ''anonymous'' ''LOGIN_FAILED'' ?fo w0 = Return () wb"
      using logAuditAction_returns by blast
    have h: "login_handler rt req res w =
               Return (res\<lparr>statusCode := 401,
                           sent := Some (Json (JObj [(''error'', JStr ''Invalid credentials'')]))\<rparr>) wb"
      using present v b fresh nok
      by (simp add: login_handler_def Let_def guarded_def res_json_no_hooks res_status_def)
    have l: "last (console wb) = ConsoleLog [S ''[Audit] anonymous performed LOGIN_FAILED'', S []]"
      using logAuditAction_console_last[OF b] fl by simp
    have f: "Option.bind (log_dir wb) (\<lambda>fs'. map_of fs' ?path)
               = Some ((case map_of fs ?path of None \<Rightarrow> [] | Some c \<Rightarrow> c) @ js @ [CHR 0x0A])"
      if "env w ''AUDIT_LOG_ENABLED'' = Some ''true''" "log_dir w = Some fs" "append_fault w = None"
         "JSON_stringify rt (make_entry (clock w (tick w)) ''anonymous'' ''LOGIN_FAILED'' ?fo) = Inr js"
      for fs js
    proof -
      have "\<exists>w1. logAuditAction rt ''anonymous'' ''LOGIN_FAILED'' ?fo w0 = Return () w1 \<and>
              console w1 = console w0 @ [ConsoleLog (audit_console_line ''anonymous'' ''LOGIN_FAILED'' ?fo)] \<and>
              Option.bind (log_dir w1)
                (\<lambda>fs'. map_of fs' (''audit-'' @ takeWhile (\<lambda>c. c \<noteq> CHR ''T'') (clock w0 (Suc (tick w0))) @ ''.json''))
              = Some ((case map_of fs (''audit-'' @ takeWhile (\<lambda>c. c \<noteq> CHR ''T'') (clock w0 (Suc (tick w0))) @ ''.json'') of
                         None \<Rightarrow> [] | Some c \<Rightarrow> c) @ js @ [CHR 0x0A])"
        by (rule logAuditAction_writes) (use that k in auto)
      then show ?thesis using b k by auto
    qed
    show ?thesis using h l f fe by (intro exI[of _ wb]) auto
  qed
  have success: "?u = JStr (str_of ?u) \<and>
            (\<exists>w1. login_handler rt req res w =
                     Return (res\<lparr>res_cookies := res_cookies res @ [(''adminToken'', token)],
                                 sent := Some (Json (JObj
                                   [(''success'', JBool True), (''token'', JStr token),
                                    (''user'', JObj [(''username'', ?u), (''role'', JStr ''admin'')])]))\<rparr>) w1 \<and>
                   last (console w1) =
                     ConsoleLog [S (''[Audit] '' @ str_of ?u @ '' performed LOGIN_SUCCESS''), S []] \<and>
                   (\<forall>fs js.
                      env w ''AUDIT_LOG_ENABLED'' = Some ''true'' \<and> log_dir w = Some fs \<and>
                      append_fault w = None \<and>
                      JSON_stringify rt
                        \<lparr> timestamp = clock w (tick w), action = ''LOGIN_SUCCESS'',
                          admin = str_of ?u,
                          target = None, changes = None, metadata = None,
                          ip = or_else (req_ip req) ''unknown'', userAgent = None \<rparr> = Inr js \<longrightarrow>
                      Option.bind (log_dir w1) (\<lambda>fs'. map_of fs' ?path)
                        = Some ((case map_of fs ?path of None \<Rightarrow> [] | Some c \<Rightarrow> c) @ js @ [CHR 0x0A])))"
    if yes: "ok" and tok: "generateToken rt (str_of ?u) w = Inr token"
  proof -
    from k yes have w0: "w0 = w" and us: "?u = JStr (str_of ?u)" by auto
    obtain wa where a: "logAuditAction rt (str_of ?u) ''LOGIN_SUCCESS'' ?so w = Return () wa"
      using logAuditAction_returns by blast
    have h: "login_handler rt req res w =
                     Return (res\<lparr>res_cookies := res_cookies res @ [(''adminToken'', token)],
                                 sent := Some (Json (JObj
                                   [(''success'', JBool True), (''token'', JStr token),
                                    (''user'', JObj [(''username'', ?u), (''role'', JStr ''admin'')])]))\<rparr>) wa"
      using present v yes w0 us a tok fresh
      by (simp add: login_handler_def Let_def guarded_def res_json_no_hooks login_success_body_def)
    have l: "last (console wa) = ConsoleLog [S (''[Audit] '' @ str_of ?u @ '' performed LOGIN_SUCCESS''), S []]"
      using logAuditAction_console_last[OF a] sl by simp
    have f: "Option.bind (log_dir wa) (\<lambda>fs'. map_of fs' ?path)
               = Some ((case map_of fs ?path of None \<Rightarrow> [] | Some c \<Rightarrow> c) @ js @ [CHR 0x0A])"
      if "env w ''AUDIT_LOG_ENABLED'' = Some ''true''" "log_dir w = Some fs" "append_fault w = None"
         "JSON_stringify rt (make_entry (clock w (tick w)) (str_of ?u) ''LOGIN_SUCCESS'' ?so) = Inr js"
      for fs js
      using logAuditAction_writes[OF that] a by auto
    show ?thesis using us h l f se by (intro conjI exI[of _ wa]) auto
  qed
  have broken: "login_handler rt req res w =
              Return (res\<lparr>statusCode := 500,
                          sent := Some (Json (JObj [(''error'', JStr ''Internal server error'')]))\<rparr>)
                     (w\<lparr>console := console w @ [ConsoleError [S ''[Auth] Login error:'', E e]]\<rparr>)"
    if yes: "ok" and tok: "generateToken rt (str_of ?u) w = Inl e"
  proof -
    from k yes have w0: "w0 = w" by auto
    show ?thesis
      using present v yes w0 tok fresh
      by (simp add: login_handler_def Let_def handler_catch_def res_json_no_hooks res_status_def
          console_error_def)
  qed
  have ok_eq: "fst (validateAdminCredentials ?u ?p w) = ok" using v by simp
  show ?thesis
    unfolding ok_eq
    using failed success broken authMiddleware_world[OF fresh] by blast
qed

lemma gl1: "truthy (get_prop (req_body good_login) ''username'')" "truthy (get_prop (req_body good_login) ''password'')"
  "truthy (get_prop (req_body bad_login) ''username'')" "truthy (get_prop (req_body bad_login) ''password'')"
  by code_simp+

lemma gl2: "fst (validateAdminCredentials (get_prop (req_body good_login) ''username'')
                 (get_prop (req_body good_login) ''password'') quiet_world)"
  "\<not> fst (validateAdminCredentials (get_prop (req_body bad_login) ''username'')
                 (get_prop (req_body bad_login) ''password'') quiet_world)"
  by code_simp+

lemma gl3: "generateToken toy_runtime (str_of (get_prop (req_body good_login) ''username'')) quiet_world = Inr ''signed:root''"
  by code_simp

lemma gl4: "get_prop (req_body good_login) ''username'' = JStr ''root''"
   "get_prop (req_body bad_login) ''username'' = JStr ''root''"
  by code_simp+

lemma gl5: "generateToken toy_runtime (str_of (get_prop (req_body good_login) ''username'')) no_secret_world
    = Inl (JsError ''JWT_SECRET is not configured'')"
  by code_simp

lemma gl6: "fst (validateAdminCredentials (get_prop (req_body good_login) ''username'')
                 (get_prop (req_body good_login) ''password'') no_secret_world)"
  by code_simp

lemma gl7:
  "JSON_stringify toy_runtime
     \<lparr> timestamp = clock quiet_world (tick quiet_world), action = ''LOGIN_SUCCESS'',
       admin = str_of (get_prop (req_body good_login) ''username''),
       target = None, changes = None, metadata = None,
       ip = or_else (req_ip good_login) ''unknown'', userAgent = None \<rparr>
   = Inr (''{'' @ quoted ''timestamp'' @ '':'' @ quoted ''2024-01-02T10:00:00.000Z'' @ '','' @
          quoted ''action'' @ '':'' @ quoted ''LOGIN_SUCCESS'' @ '','' @
          quoted ''admin'' @ '':'' @ quoted ''root'' @ ''}'')"
  by (simp add: toy_runtime_def toy_stringify_def quiet_world_def fixed_clock_def gl4)

lemma gl8:
  "JSON_stringify toy_runtime
     \<lparr> timestamp = clock quiet_world (tick quiet_world), action = ''LOGIN_FAILED'',
       admin = ''anonymous'', target = None, changes = None,
       metadata = Some [(''username'', get_prop (req_body bad_login) ''username'')],
       ip = or_else (req_ip bad_login) ''unknown'', userAgent = None \<rparr>
   = Inr (''{'' @ quoted ''timestamp'' @ '':'' @ quoted ''2024-01-02T10:00:00.000Z'' @ '','' @
          quoted ''action'' @ '':'' @ quoted ''LOGIN_FAILED'' @ '','' @
          quoted ''admin'' @ '':'' @ quoted ''anonymous'' @ ''}'')"
  by (simp add: toy_runtime_def toy_stringify_def quiet_world_def fixed_clock_def)

theorem login_handler_audits_witness:
  "(\<exists>w1. login_handler toy_runtime good_login new_response quiet_world =
           Return (new_response\<lparr>res_cookies := [(''adminToken'', ''signed:root'')],
                       sent := Some (Json (JObj [(''success'', JBool True), (''token'', JStr ''signed:root''),
                                   (''user'', JObj [(''username'', JStr ''root''),
                                                    (''role'', JStr ''admin'')])]))\<rparr>) w1 \<and>
          last (console w1) = ConsoleLog [S ''[Audit] root performed LOGIN_SUCCESS'', S []] \<and>
          Option.bind (log_dir w1) (\<lambda>fs. map_of fs ''audit-2024-01-02.json'')
            = Some (''{'' @ quoted ''timestamp'' @ '':'' @ quoted ''2024-01-02T10:00:00.000Z'' @ '','' @
                    quoted ''action'' @ '':'' @ quoted ''LOGIN_SUCCESS'' @ '','' @
                    quoted ''admin'' @ '':'' @ quoted ''root'' @ ''}'' @ [CHR 0x0A])) \<and>
   (\<exists>w1. login_handler toy_runtime bad_login new_response quiet_world =
           Return (new_response\<lparr>statusCode := 401,
                       sent := Some (Json (JObj [(''error'', JStr ''Invalid credentials'')]))\<rparr>) w1 \<and>
          last (console w1) = ConsoleLog [S ''[Audit] anonymous performed LOGIN_FAILED'', S []] \<and>
          Option.bind (log_dir w1) (\<lambda>fs. map_of fs ''audit-2024-01-02.json'')
            = Some (''{'' @ quoted ''timestamp'' @ '':'' @ quoted ''2024-01-02T10:00:00.000Z'' @ '','' @
                    quoted ''action'' @ '':'' @ quoted ''LOGIN_FAILED'' @ '','' @
                    quoted ''admin'' @ '':'' @ quoted ''anonymous'' @ ''}'' @ [CHR 0x0A])) \<and>
   login_handler toy_runtime good_login new_response no_secret_world =
     Return (new_response\<lparr>statusCode := 500,
                 sent := Some (Json (JObj [(''error'', JStr ''Internal server error'')]))\<rparr>)
            (no_secret_world\<lparr>console := console no_secret_world @
               [ConsoleError [S ''[Auth] Login error:'', E (JsError ''JWT_SECRET is not configured'')]]\<rparr>)"
proof -
  have fresh: "send_hooks new_response = []" by (simp add: new_response_def)
  have pre: "env quiet_world ''AUDIT_LOG_ENABLED'' = Some ''true''" "log_dir quiet_world = Some []"
    "append_fault quiet_world = None"
    by (simp_all add: quiet_world_def test_env_def)
  have path: "''audit-'' @ takeWhile (\<lambda>c. c \<noteq> CHR ''T'') (clock quiet_world (Suc (tick quiet_world))) @ ''.json''
                = ''audit-2024-01-02.json''"
    by (simp add: quiet_world_def fixed_clock_def)
  note good = login_handler_audits[OF fresh gl1(1,2), where rt = toy_runtime and w = quiet_world
      and token = "''signed:root''"]
  from good[THEN conjunct2, THEN conjunct1, rule_format, OF conjI[OF gl2(1) gl3]]
  obtain w1 where
    1: "login_handler toy_runtime good_login new_response quiet_world =
          Return (new_response\<lparr>res_cookies := res_cookies new_response @ [(''adminToken'', ''signed:root'')],
                      sent := Some (Json (JObj
                        [(''success'', JBool True), (''token'', JStr ''signed:root''),
                         (''user'', JObj [(''username'', get_prop (req_body good_login) ''username''),
                                          (''role'', JStr ''admin'')])]))\<rparr>) w1"
    and 2: "last (console w1) =
              ConsoleLog [S (''[Audit] '' @ str_of (get_prop (req_body good_login) ''username'')
                               @ '' performed LOGIN_SUCCESS''), S []]"
    and 3: "\<forall>fs js.
              env quiet_world ''AUDIT_LOG_ENABLED'' = Some ''true'' \<and> log_dir quiet_world = Some fs \<and>
              append_fault quiet_world = None \<and>
              JSON_stringify toy_runtime
                \<lparr> timestamp = clock quiet_world (tick quiet_world), action = ''LOGIN_SUCCESS'',
                  admin = str_of (get_prop (req_body good_login) ''username''),
                  target = None, changes = None, metadata = None,
                  ip = or_else (req_ip good_login) ''unknown'', userAgent = None \<rparr> = Inr js \<longrightarrow>
              Option.bind (log_dir w1)
                (\<lambda>fs'. map_of fs' (''audit-'' @ takeWhile (\<lambda>c. c \<noteq> CHR ''T'') (clock quiet_world (Suc (tick quiet_world))) @ ''.json''))
                = Some ((case map_of fs (''audit-'' @ takeWhile (\<lambda>c. c \<noteq> CHR ''T'') (clock quiet_world (Suc (tick quiet_world))) @ ''.json'') of
                           None \<Rightarrow> [] | Some c \<Rightarrow> c) @ js @ [CHR 0x0A])"
    by blast
  note bad = login_handler_audits[OF fresh gl1(3,4), where rt = toy_runtime and w = quiet_world]
  from bad[THEN conjunct1, rule_format, OF gl2(2)]
  obtain w2 where
    4: "login_handler toy_runtime bad_login new_response quiet_world =
          Return (new_response\<lparr>statusCode := 401,
                      sent := Some (Json (JObj [(''error'', JStr ''Invalid credentials'')]))\<rparr>) w2"
    and 5: "last (console w2) = ConsoleLog [S ''[Audit] anonymous performed LOGIN_FAILED'', S []]"
    and 6: "\<forall>fs js.
              env quiet_world ''AUDIT_LOG_ENABLED'' = Some ''true'' \<and> log_dir quiet_world = Some fs \<and>
              append_fault quiet_world = None \<and>
              JSON_stringify toy_runtime
                \<lparr> timestamp = clock quiet_world (tick quiet_world), action = ''LOGIN_FAILED'',
                  admin = ''anonymous'', target = None, changes = None,
                  metadata = Some [(''username'', get_prop (req_body bad_login) ''username'')],
                  ip = or_else (req_ip bad_login) ''unknown'', userAgent = None \<rparr> = Inr js \<longrightarrow>
              Option.bind (log_dir w2)
                (\<lambda>fs'. map_of fs' (''audit-'' @ takeWhile (\<lambda>c. c \<noteq> CHR ''T'') (clock quiet_world (Suc (tick quiet_world))) @ ''.json''))
                = Some ((case map_of fs (''audit-'' @ takeWhile (\<lambda>c. c \<noteq> CHR ''T'') (clock quiet_world (Suc (tick quiet_world))) @ ''.json'') of
                           None \<Rightarrow> [] | Some c \<Rightarrow> c) @ js @ [CHR 0x0A])"
    by blast
  note nos = login_handler_audits[OF fresh gl1(1,2), where rt = toy_runtime and w = no_secret_world
      and e = "JsError ''JWT_SECRET is not configured''"]
  note 7 = nos[THEN conjunct2, THEN conjunct2, THEN conjunct1, rule_format, OF conjI[OF gl6 gl5]]
  have a: "Option.bind (log_dir w1) (\<lambda>fs. map_of fs ''audit-2024-01-02.json'')
            = Some (''{'' @ quoted ''timestamp'' @ '':'' @ quoted ''2024-01-02T10:00:00.000Z'' @ '','' @
                    quoted ''action'' @ '':'' @ quoted ''LOGIN_SUCCESS'' @ '','' @
                    quoted ''admin'' @ '':'' @ quoted ''root'' @ ''}'' @ [CHR 0x0A])"
    using 3[rule_format, OF conjI[OF pre(1) conjI[OF pre(2) conjI[OF pre(3) gl7]]]]
    unfolding path by simp
  have b: "Option.bind (log_dir w2) (\<lambda>fs. map_of fs ''audit-2024-01-02.json'')
            = Some (''{'' @ quoted ''timestamp'' @ '':'' @ quoted ''2024-01-02T10:00:00.000Z'' @ '','' @
                    quoted ''action'' @ '':'' @ quoted ''LOGIN_FAILED'' @ '','' @
                    quoted ''admin'' @ '':'' @ quoted ''anonymous'' @ ''}'' @ [CHR 0x0A])"
    using 6[rule_format, OF conjI[OF pre(1) conjI[OF pre(2) conjI[OF pre(3) gl8]]]]
    unfolding path by simp
  show ?thesis
    using 1 2 a 4 5 b 7 by (simp add: gl4 new_response_def)
qed

text \<open>
  Claim C9 as stated fails. With the credentials configured and no \<open>JWT_SECRET\<close>, a login
  with the right credentials passes the validation, \<open>generateToken\<close> throws, and the
  handler answers 500: no token, and nothing is recorded in the log or as an audit line on
  the console.
\<close>

theorem login_without_secret_counterexample:
  "fst (validateAdminCredentials (get_prop (req_body good_login) ''username'')
          (get_prop (req_body good_login) ''password'') no_secret_world) \<and>
   returned (login_handler toy_runtime good_login new_response no_secret_world) =
     Some (new_response\<lparr>statusCode := 500,
             sent := Some (Json (JObj [(''error'', JStr ''Internal server error'')]))\<rparr>) \<and>
   console (world_after (login_handler toy_runtime good_login new_response no_secret_world)) =
     [ConsoleError [S ''[Auth] Login error:'', E (JsError ''JWT_SECRET is not configured'')]] \<and>
   log_dir (world_after (login_handler toy_runtime good_login new_response no_secret_world)) = Some []"
  by code_simp

section \<open>Route wiring\<close>

lemma chain_auth_only:
  "set ms \<subseteq> {AuthMiddleware} \<Longrightarrow> send_hooks res = [] \<Longrightarrow>
     (case run_chain rt ms req res w of
        Reached req1 res1 w1 \<Rightarrow> w1 = w \<and> send_hooks res1 = []
      | Ended res1 w1 \<Rightarrow> w1 = w
      | Failed e w1 \<Rightarrow> w1 = w)"
proof (induction ms arbitrary: req)
  case Nil
  then show ?case by simp
next
  case (Cons m ms)
  then have m: "m = AuthMiddleware" and ms: "set ms \<subseteq> {AuthMiddleware}" by auto
  show ?case
  proof (cases "authMiddleware rt req res w")
    case (Reached req1 res1 w1)
    then have "res1 = res \<and> w1 = w"
      using Cons.prems(2)
      by (auto simp: authMiddleware_def Let_def finish_def res_json_no_hooks res_status_def
          split: sum.splits option.splits if_splits)
    then show ?thesis using Reached m Cons.IH[OF ms Cons.prems(2), of req1] by simp
  next
    case (Ended res1 w1)
    then show ?thesis using m authMiddleware_world[OF Cons.prems(2), of rt req w] by simp
  next
    case (Failed e w1)
    then show ?thesis using m authMiddleware_world[OF Cons.prems(2), of rt req w] by simp
  qed
qed

lemma api_chains_auth_only: "\<forall>(verb, p, ms)\<in>set api_chains. set ms \<subseteq> {AuthMiddleware}"
  by code_simp

text \<open>
  Claim C10. No handler of the shipped router has \<open>auditMiddleware\<close> in front of it. So for
  every request the middleware chain leaves the world untouched, and when a handler is
  reached, sending the response records nothing: what is recorded is recorded by the
  handler's own calls of \<open>logAuditAction\<close>.
\<close>

theorem interceptor_never_attached:
  "\<forall>(verb, p, ms)\<in>set api_chains.
     (\<forall>actionPrefix. AuditMiddleware actionPrefix \<notin> set ms) \<and>
     (\<forall>rt req res w. send_hooks res = [] \<longrightarrow>
        (case run_chain rt ms req res w of
           Reached req1 res1 w1 \<Rightarrow>
             w1 = w \<and> (\<forall>b. res_send rt req1 b res1 w1 = Return (res1\<lparr>sent := Some (wire b)\<rparr>) w1)
         | Ended res1 w1 \<Rightarrow> w1 = w
         | Failed e w1 \<Rightarrow> w1 = w))"
proof -
  have "(\<forall>actionPrefix. AuditMiddleware actionPrefix \<notin> set ms) \<and>
     (\<forall>rt req res w. send_hooks res = [] \<longrightarrow>
        (case run_chain rt ms req res w of
           Reached req1 res1 w1 \<Rightarrow>
             w1 = w \<and> (\<forall>b. res_send rt req1 b res1 w1 = Return (res1\<lparr>sent := Some (wire b)\<rparr>) w1)
         | Ended res1 w1 \<Rightarrow> w1 = w
         | Failed e w1 \<Rightarrow> w1 = w))" if "set ms \<subseteq> {AuthMiddleware}" for ms
  proof (intro conjI allI impI)
    fix actionPrefix show "AuditMiddleware actionPrefix \<notin> set ms" using that by auto
  next
    fix rt req w and res :: response assume h: "send_hooks res = []"
    show "case run_chain rt ms req res w of
           Reached req1 res1 w1 \<Rightarrow>
             w1 = w \<and> (\<forall>b. res_send rt req1 b res1 w1 = Return (res1\<lparr>sent := Some (wire b)\<rparr>) w1)
         | Ended res1 w1 \<Rightarrow> w1 = w
         | Failed e w1 \<Rightarrow> w1 = w"
      using chain_auth_only[OF that h, where rt = rt and req = req and w = w]
      by (auto simp: res_send_no_hooks split: chain_result.splits)
  qed
  then show ?thesis using api_chains_auth_only by blast
qed

lemma pr1: "(''PATCH'', ''/characters/:id'', [AuthMiddleware]) \<in> set api_chains"
  by code_simp

lemma pr2: "bearer_or_cookie patch_request = Some ''signed:root''" by code_simp

lemma pr3: "verifyToken toy_runtime ''signed:root'' quiet_world = Inr (Some root_payload)"
  by code_simp

theorem interceptor_never_attached_witness:
  "(''PATCH'', ''/characters/:id'', [AuthMiddleware]) \<in> set api_chains \<and>
   run_chain toy_runtime [AuthMiddleware] patch_request new_response quiet_world =
     Reached (patch_request\<lparr>req_admin := Some root_payload\<rparr>) new_response quiet_world \<and>
   res_send toy_runtime (patch_request\<lparr>req_admin := Some root_payload\<rparr>) (Object []) new_response quiet_world =
     Return (new_response\<lparr>sent := Some (Json (JObj []))\<rparr>) quiet_world"
proof -
  have r: "run_chain toy_runtime [AuthMiddleware] patch_request new_response quiet_world =
     Reached (patch_request\<lparr>req_admin := Some root_payload\<rparr>) new_response quiet_world"
    by (simp add: authMiddleware_def pr2 pr3 given_def)
  have fresh: "send_hooks new_response = []" by (simp add: new_response_def)
  from interceptor_never_attached pr1
  have "\<forall>rt req res w. send_hooks res = [] \<longrightarrow>
        (case run_chain rt [AuthMiddleware] req res w of
           Reached req1 res1 w1 \<Rightarrow>
             w1 = w \<and> (\<forall>b. res_send rt req1 b res1 w1 = Return (res1\<lparr>sent := Some (wire b)\<rparr>) w1)
         | Ended res1 w1 \<Rightarrow> w1 = w
         | Failed e w1 \<Rightarrow> w1 = w)"
    by blast
  then have "case run_chain toy_runtime [AuthMiddleware] patch_request new_response quiet_world of
           Reached req1 res1 w1 \<Rightarrow>
             w1 = quiet_world \<and> (\<forall>b. res_send toy_runtime req1 b res1 w1 = Return (res1\<lparr>sent := Some (wire b)\<rparr>) w1)
         | Ended res1 w1 \<Rightarrow> w1 = quiet_world
         | Failed e w1 \<Rightarrow> w1 = quiet_world"
    using fresh by blast
  with r pr1 show ?thesis by simp
qed

section \<open>Field diffs\<close>

lemma get_prop_select:
  "k \<in> set names \<Longrightarrow> get_prop (select_fields names row) k = get_prop row k"
  by (induction row) (auto simp: get_prop_def select_fields_def)

lemma get_prop_select_out:
  "k \<notin> set names \<Longrightarrow> get_prop (select_fields names row) k = JUndefined"
  by (induction row) (auto simp: get_prop_def select_fields_def)

lemma strict_eq_plain: "(\<forall>kvs. b \<noteq> JObj kvs) \<and> (\<forall>vs. b \<noteq> JArr vs) \<Longrightarrow> strict_eq a b = (a = b)"
  by (cases a; cases b) auto

lemma obj_set_fresh: "k \<notin> fst ` set obj \<Longrightarrow> obj_set obj k v = obj @ [(k, v)]"
  by (simp add: obj_set_def)

lemma get_prop_distinct:
  "distinct (map fst data) \<Longrightarrow> (k, v) \<in> set data \<Longrightarrow> get_prop data k = v"
  by (simp add: get_prop_def)

lemma changes_loop_known:
  assumes "distinct (map fst data)" "set ds \<subseteq> set data" "distinct (map fst ds)"
      and "fst ` set ds \<inter> fst ` set chs = {}"
      and "\<forall>(k, v)\<in>set ds. (\<forall>kvs. v \<noteq> JObj kvs) \<and> (\<forall>vs. v \<noteq> JArr vs) \<and>
             get_prop current k = get_prop row k"
  shows "changes_loop current data (map fst ds) chs =
           chs @ map (\<lambda>(k, v). (k, \<lparr> from_val = get_prop row k, to_val = v \<rparr>))
                   (filter (\<lambda>(k, v). v \<noteq> JUndefined \<and> get_prop row k \<noteq> v) ds)"
  using assms(2-5)
proof (induction ds arbitrary: chs)
  case Nil
  then show ?case by simp
next
  case (Cons d ds)
  obtain k v where d: "d = (k, v)" by (cases d)
  have gv: "get_prop data k = v"
    using Cons.prems(1) d assms(1) by (auto intro: get_prop_distinct)
  have nobj: "(\<forall>kvs. v \<noteq> JObj kvs) \<and> (\<forall>vs. v \<noteq> JArr vs)" and cur: "get_prop current k = get_prop row k"
    using Cons.prems(4) d by auto
  have fresh: "k \<notin> fst ` set chs" using Cons.prems(3) d by auto
  have knot: "k \<notin> fst ` set ds" using Cons.prems(2) d by auto
  show ?case
  proof (cases "v \<noteq> JUndefined \<and> get_prop row k \<noteq> v")
    case True
    let ?chs = "chs @ [(k, \<lparr> from_val = get_prop row k, to_val = v \<rparr>)]"
    have step: "changes_loop current data (map fst (d # ds)) chs = changes_loop current data (map fst ds) ?chs"
      using True d gv cur nobj fresh by (simp add: strict_eq_plain obj_set_fresh)
    have "changes_loop current data (map fst ds) ?chs =
           ?chs @ map (\<lambda>(k, v). (k, \<lparr> from_val = get_prop row k, to_val = v \<rparr>))
                   (filter (\<lambda>(k, v). v \<noteq> JUndefined \<and> get_prop row k \<noteq> v) ds)"
      by (rule Cons.IH) (use Cons.prems knot in auto)
    with step True d show ?thesis by simp
  next
    case False
    have step: "changes_loop current data (map fst (d # ds)) chs = changes_loop current data (map fst ds) chs"
      using False d gv cur nobj by (auto simp: strict_eq_plain)
    have "changes_loop current data (map fst ds) chs =
           chs @ map (\<lambda>(k, v). (k, \<lparr> from_val = get_prop row k, to_val = v \<rparr>))
                   (filter (\<lambda>(k, v). v \<noteq> JUndefined \<and> get_prop row k \<noteq> v) ds)"
      by (rule Cons.IH) (use Cons.prems in auto)
    with step False d show ?thesis by simp
  qed
qed

lemma character_changes_selected_fields:
  assumes "distinct (map fst data)"
      and "fst ` set data \<subseteq> set character_select"
      and "\<forall>(k, v)\<in>set data. (\<forall>kvs. v \<noteq> JObj kvs) \<and> (\<forall>vs. v \<noteq> JArr vs)"
  shows "character_changes (select_fields character_select row) data = true_diff row data"
proof -
  have "changes_loop (select_fields character_select row) data (map fst data) [] =
          [] @ map (\<lambda>(k, v). (k, \<lparr> from_val = get_prop row k, to_val = v \<rparr>))
                   (filter (\<lambda>(k, v). v \<noteq> JUndefined \<and> get_prop row k \<noteq> v) data)"
    by (rule changes_loop_known) (use assms in \<open>auto simp: get_prop_select\<close>)
  then show ?thesis by (simp add: character_changes_def true_diff_def)
qed

lemma patch_character_records:
  assumes "send_hooks res = []"
  shows "\<exists>w1. logAuditAction rt (admin_or_unknown req) ''CHARACTER_UPDATE''
                 (Some (update_options req ''character'' (param req ''id'')
                          (name_of (select_fields character_select row))
                          (character_changes (select_fields character_select row) data))) w = Return () w1 \<and>
              patch_character rt req data (Inr (Some row)) (Inr upd) res w = Return (res\<lparr>sent := Some (Json upd)\<rparr>) w1"
proof -
  obtain w1 where "logAuditAction rt (admin_or_unknown req) ''CHARACTER_UPDATE''
                 (Some (update_options req ''character'' (param req ''id'')
                          (name_of (select_fields character_select row))
                          (character_changes (select_fields character_select row) data))) w = Return () w1"
    using logAuditAction_returns by blast
  then show ?thesis using assms
    by (simp add: patch_character_def Let_def guarded_def res_json_no_hooks)
qed

lemma patch_item_records:
  assumes "send_hooks res = []"
  shows "\<exists>w1. logAuditAction rt (admin_or_unknown req) ''ITEM_UPDATE''
                 (Some (update_options req ''item'' ident
                          (name_of (select_fields [''name''] row)) (item_changes data))) w = Return () w1 \<and>
              patch_item rt req ident data (Inr (Some row)) (Inr upd) res w = Return (res\<lparr>sent := Some (Json upd)\<rparr>) w1"
proof -
  obtain w1 where "logAuditAction rt (admin_or_unknown req) ''ITEM_UPDATE''
                 (Some (update_options req ''item'' ident
                          (name_of (select_fields [''name''] row)) (item_changes data))) w = Return () w1"
    using logAuditAction_returns by blast
  then show ?thesis using assms
    by (simp add: patch_item_def Let_def guarded_def res_json_no_hooks)
qed

lemma Object_fromEntries_distinct_aux:
  "distinct (map fst kvs) \<Longrightarrow> fst ` set kvs \<inter> fst ` set obj = {} \<Longrightarrow>
     foldl (\<lambda>obj (k, v). obj_set obj k v) obj kvs = obj @ kvs"
proof (induction kvs arbitrary: obj)
  case Nil
  then show ?case by simp
next
  case (Cons kv kvs)
  obtain k v where kv: "kv = (k, v)" by (cases kv)
  have "k \<notin> fst ` set obj" using Cons.prems kv by auto
  then have s: "obj_set obj k v = obj @ [(k, v)]" by (rule obj_set_fresh)
  have "foldl (\<lambda>obj (k, v). obj_set obj k v) (obj @ [(k, v)]) kvs = (obj @ [(k, v)]) @ kvs"
    by (rule Cons.IH) (use Cons.prems kv in auto)
  then show ?case using s kv by simp
qed

lemma item_changes_placeholder:
  assumes "distinct (map fst data)"
  shows "item_changes data = map (\<lambda>(k, v). (k, \<lparr> from_val = JStr ''N/A'', to_val = v \<rparr>)) data"
proof -
  have "distinct (map fst (map (\<lambda>(k, v). (k, \<lparr> from_val = JStr ''N/A'', to_val = v \<rparr>)) data))"
    using assms by (simp add: comp_def case_prod_unfold)
  then show ?thesis
    using Object_fromEntries_distinct_aux[of "map (\<lambda>(k, v). (k, \<lparr> from_val = JStr ''N/A'', to_val = v \<rparr>)) data" "[]"]
    by (simp add: item_changes_def Object_fromEntries_def)
qed

text \<open>
  Claim C7 fails on the code. \<open>experience\<close> is in the update schema, and in every form the
  client sends, but not in the \<open>select\<close> of the stored values. For the operator who raises
  level and gold, the changes map has a third key, \<open>experience\<close>, whose value did not
  change, with \<open>from\<close> undefined. For the fields that are selected the map is the true
  diff (\<open>character_changes_selected_fields\<close>).
\<close>

theorem character_update_spurious_experience:
  "character_changes (select_fields character_select hero_row) editor_form =
     [(''level'', \<lparr> from_val = JNum 5, to_val = JNum 6 \<rparr>),
      (''experience'', \<lparr> from_val = JUndefined, to_val = JNum 1200 \<rparr>),
      (''gold'', \<lparr> from_val = JNum 100, to_val = JNum 150 \<rparr>)] \<and>
   get_prop hero_row ''experience'' = JNum 1200 \<and>
   get_prop editor_form ''experience'' = JNum 1200 \<and>
   true_diff hero_row editor_form =
     [(''level'', \<lparr> from_val = JNum 5, to_val = JNum 6 \<rparr>),
      (''gold'', \<lparr> from_val = JNum 100, to_val = JNum 150 \<rparr>)]"
  by code_simp

text \<open>
  Claim C8 fails on the code. \<open>PATCH /items/:id\<close> writes the constant \<open>N/A\<close> as \<open>from\<close>
  of every supplied field: for a price raised from 100 to 150 the entry says
  \<open>from: 'N/A'\<close>, not 100.
\<close>

theorem item_update_placeholder_from:
  "item_changes price_update = [(''gold'', \<lparr> from_val = JStr ''N/A'', to_val = JNum 150 \<rparr>)] \<and>
   get_prop sword_row ''gold'' = JNum 100 \<and>
   true_diff sword_row price_update = [(''gold'', \<lparr> from_val = JNum 100, to_val = JNum 150 \<rparr>)]"
  by code_simp

end
